theory Spec2Isabelle
  imports Main
begin

section \<open>The nginx ingress health monitor (nginx\_monitor.py)\<close>

text \<open>
  The program polls the readiness of the ingress controller's pods, counts consecutive
  unhealthy polls, restarts the deployment when the count reaches a threshold and sends
  alerts to Slack, email and PagerDuty.

  The embedding follows the source function by function. Everything the program does to
  the outside is recorded as an \<open>event\<close>, in program order; everything the outside answers
  (the pod list, whether a request raises) is read from a \<open>world\<close>, one per loop iteration.
  A Python exception is the \<open>Inl\<close> of a result, carrying the text that \<open>{err}\<close> renders.
  The calls of \<open>logging\<close> and \<open>print\<close> and the constructors of the API clients are
  taken to return normally.
\<close>

subsection \<open>Configuration (lines 12-21)\<close>

text \<open>
  The variables of the environment the module reads. \<open>CHECK_INTERVAL\<close> and
  \<open>FAILURE_LIMIT\<close> go through \<open>int(...)\<close>; the field holds the integer read when the
  variable is set.
\<close>

record environ =
  env_NGINX_NAMESPACE :: "string option"
  env_NGINX_DEPLOYMENT :: "string option"
  env_SLACK_HOOK_URL :: "string option"
  env_PAGERDUTY_ROUTING_KEY :: "string option"
  env_EMAIL_FROM :: "string option"
  env_EMAIL_TO :: "string option"
  env_SMTP_HOST :: "string option"
  env_CHECK_INTERVAL :: "int option"
  env_FAILURE_LIMIT :: "int option"

text \<open>The module-level constants.\<close>

record config =
  NAMESPACE :: string
  DEPLOYMENT_NAME :: string
  SLACK_HOOK_URL :: "string option"
  PAGERDUTY_ROUTING_KEY :: "string option"
  EMAIL_FROM :: "string option"
  EMAIL_TO :: "string option"
  SMTP_HOST :: string
  CHECK_EVERY :: int
  FAILURE_THRESHOLD :: int

text \<open>\<open>os.getenv(key, default)\<close>: the default stands in only when the variable is unset.\<close>

definition getenv :: "'a option \<Rightarrow> 'a \<Rightarrow> 'a" where
  "getenv v dflt = (case v of None \<Rightarrow> dflt | Some x \<Rightarrow> x)"

definition load_config :: "environ \<Rightarrow> config" where
  "load_config env =
     \<lparr> NAMESPACE = getenv (env_NGINX_NAMESPACE env) ''ingress-nginx'',
       DEPLOYMENT_NAME = getenv (env_NGINX_DEPLOYMENT env) ''ingress-nginx-controller'',
       SLACK_HOOK_URL = env_SLACK_HOOK_URL env,
       PAGERDUTY_ROUTING_KEY = env_PAGERDUTY_ROUTING_KEY env,
       EMAIL_FROM = env_EMAIL_FROM env,
       EMAIL_TO = env_EMAIL_TO env,
       SMTP_HOST = getenv (env_SMTP_HOST env) ''localhost'',
       CHECK_EVERY = getenv (env_CHECK_INTERVAL env) 60,
       FAILURE_THRESHOLD = getenv (env_FAILURE_LIMIT env) 3 \<rparr>"

text \<open>Python truth of a string (\<open>not s\<close> holds of the empty string) and of \<open>None\<close>.\<close>

definition truthy_str :: "string \<Rightarrow> bool" where
  "truthy_str s = (s \<noteq> [])"

fun truthy :: "string option \<Rightarrow> bool" where
  "truthy None = False"
| "truthy (Some s) = truthy_str s"

subsection \<open>Events, worlds and results\<close>

datatype level = INFO | WARNING | ERROR

datatype json = JNone | JStr string | JObj "(string \<times> json) list"

fun json_of :: "string option \<Rightarrow> json" where
  "json_of None = JNone"
| "json_of (Some s) = JStr s"

record email_message =
  msg_content :: string
  msg_Subject :: string
  msg_From :: "string option"
  msg_To :: "string option"

datatype event =
    Log level string
  | Print string
  | Requests_post "string option" json
  | Smtp_send_message string email_message
  | List_namespaced_pod string string
  | Patch_namespaced_deployment string string json
  | Time_sleep int

type_synonym exn = string

type_synonym 'a io = "event list \<times> (exn + 'a)"

record v1_container_status =
  ready :: bool

record v1_pod =
  metadata_name :: string
  status_container_statuses :: "v1_container_status list option"

text \<open>
  What the outside answers during one iteration of the loop: each call is made at most
  once per iteration. \<open>Inl err\<close> is a call that raises, \<open>Inr x\<close> one that returns \<open>x\<close>:
  the list of pods, the status code of the HTTP response of \<open>requests.post\<close> (which does
  not raise for an error status), the recipients that \<open>send_message\<close> reports as refused.
  \<open>message_response\<close> is what building the \<open>EmailMessage\<close> (lines 48-52) does: assigning
  a header raises \<open>ValueError\<close> for a value with a line break inside it.
\<close>

record world =
  pods_response :: "exn + v1_pod list"
  patch_response :: "exn + unit"
  slack_response :: "exn + int"
  message_response :: "exn option"
  smtp_response :: "exn + string list"
  pagerduty_response :: "exn + int"
  time_time :: string

text \<open>Statement sequencing: an exception skips the statements after it.\<close>

definition bind_io :: "'a io \<Rightarrow> ('a \<Rightarrow> 'b io) \<Rightarrow> 'b io" where
  "bind_io m f =
     (case m of
        (es, Inl err) \<Rightarrow> (es, Inl err)
      | (es, Inr x) \<Rightarrow> (case f x of (es', r) \<Rightarrow> (es @ es', r)))"

definition then_io :: "unit io \<Rightarrow> 'b io \<Rightarrow> 'b io" where
  "then_io m n = bind_io m (\<lambda>_. n)"

text \<open>\<open>try: body except Exception as err: handler\<close>.\<close>

definition try_except :: "'a io \<Rightarrow> (exn \<Rightarrow> 'a io) \<Rightarrow> 'a io" where
  "try_except body handler =
     (case body of
        (es, Inl err) \<Rightarrow> (case handler err of (es', r) \<Rightarrow> (es @ es', r))
      | (es, Inr x) \<Rightarrow> (es, Inr x))"

definition logging :: "level \<Rightarrow> string \<Rightarrow> unit io" where
  "logging lvl s = ([Log lvl s], Inr ())"

text \<open>
  An external call whose result the source does not use: the event of the attempt, then
  the world's answer, of which only the exception is kept.
\<close>

definition call :: "event \<Rightarrow> exn + 'a \<Rightarrow> unit io" where
  "call ev response = ([ev], case response of Inl err \<Rightarrow> Inl err | Inr x \<Rightarrow> Inr ())"

text \<open>Lines 48-52 of \<open>notify_email\<close>: no call to the outside, and an exception or none.\<close>

definition build_message :: "exn option \<Rightarrow> unit io" where
  "build_message response = ([], case response of None \<Rightarrow> Inr () | Some err \<Rightarrow> Inl err)"

subsection \<open>Notification functions (lines 33-82)\<close>

definition notify_slack :: "config \<Rightarrow> world \<Rightarrow> string \<Rightarrow> unit io" where
  "notify_slack cfg w message =
     (if \<not> truthy (SLACK_HOOK_URL cfg) then
        logging WARNING ''Slack URL not set, skipping Slack notification''
      else
        try_except
          (call (Requests_post (SLACK_HOOK_URL cfg) (JObj [(''text'', JStr message)]))
             (slack_response w))
          (\<lambda>err. logging ERROR (''Slack error: '' @ err)))"

definition notify_email :: "config \<Rightarrow> world \<Rightarrow> string \<Rightarrow> string \<Rightarrow> unit io" where
  "notify_email cfg w subject body =
     (if \<not> list_all (\<lambda>b. b) [truthy (EMAIL_FROM cfg), truthy (EMAIL_TO cfg), truthy_str (SMTP_HOST cfg)] then
        logging WARNING ''Email config incomplete, skipping email''
      else
        try_except
          (then_io (build_message (message_response w))
             (call (Smtp_send_message (SMTP_HOST cfg)
                      \<lparr> msg_content = body, msg_Subject = subject,
                        msg_From = EMAIL_FROM cfg, msg_To = EMAIL_TO cfg \<rparr>)
                (smtp_response w)))
          (\<lambda>err. logging ERROR (''Email error: '' @ err)))"

definition notify_pagerduty :: "config \<Rightarrow> world \<Rightarrow> string \<Rightarrow> unit io" where
  "notify_pagerduty cfg w message =
     (if \<not> truthy (PAGERDUTY_ROUTING_KEY cfg) then
        logging WARNING ''PagerDuty key not set, skipping notification''
      else
        try_except
          (call (Requests_post (Some ''https://events.pagerduty.com/v2/enqueue'')
                   (JObj [(''routing_key'', json_of (PAGERDUTY_ROUTING_KEY cfg)),
                          (''event_action'', JStr ''trigger''),
                          (''payload'', JObj [(''summary'', JStr message),
                                              (''severity'', JStr ''critical''),
                                              (''source'', JStr ''nginx-ingress-monitor'')])]))
             (pagerduty_response w))
          (\<lambda>err. logging ERROR (''PagerDuty error: '' @ err)))"

definition notify_all_channels :: "config \<Rightarrow> world \<Rightarrow> string \<Rightarrow> unit io" where
  "notify_all_channels cfg w message =
     then_io (logging INFO (''Alert: '' @ message))
       (then_io (notify_slack cfg w message)
          (then_io (notify_email cfg w ''NGINX Health Alert'' message)
             (notify_pagerduty cfg w message)))"

subsection \<open>Health check and recovery (lines 87-126)\<close>

text \<open>The inner loop over the containers of one pod, and the body of the outer loop.\<close>

definition container_loop :: "string \<Rightarrow> string list \<Rightarrow> v1_container_status list \<Rightarrow> string list" where
  "container_loop name problem_pods cs =
     foldl (\<lambda>acc c. if \<not> ready c then acc @ [name] else acc) problem_pods cs"

definition pod_step :: "string list \<Rightarrow> v1_pod \<Rightarrow> string list" where
  "pod_step problem_pods pod =
     (case status_container_statuses pod of
        None \<Rightarrow> problem_pods
      | Some cs \<Rightarrow>
          if cs \<noteq> [] then container_loop (metadata_name pod) problem_pods cs
          else problem_pods)"

definition problem_pods_of :: "v1_pod list \<Rightarrow> string list" where
  "problem_pods_of items = foldl pod_step [] items"

definition get_unhealthy_pods :: "config \<Rightarrow> world \<Rightarrow> string list io" where
  "get_unhealthy_pods cfg w =
     ([List_namespaced_pod (NAMESPACE cfg) ''app.kubernetes.io/component=controller''],
      case pods_response w of
        Inl err \<Rightarrow> Inl err
      | Inr items \<Rightarrow> Inr (problem_pods_of items))"

definition restart_msg :: "config \<Rightarrow> string" where
  "restart_msg cfg =
     ''[Self-Heal] Restarting deployment '' @ DEPLOYMENT_NAME cfg @ '' in namespace '' @ NAMESPACE cfg"

definition restart_patch :: "world \<Rightarrow> json" where
  "restart_patch w =
     JObj [(''spec'', JObj [(''template'', JObj [(''metadata'',
       JObj [(''annotations'', JObj [(''restarted-at'', JStr (time_time w))])])])])]"

definition restart_nginx_controller :: "config \<Rightarrow> world \<Rightarrow> bool \<Rightarrow> unit io" where
  "restart_nginx_controller cfg w dry_run =
     then_io (logging INFO (restart_msg cfg))
       (if dry_run then logging INFO ''[Dry Run] Skipping actual restart''
        else
          try_except
            (then_io
               (call (Patch_namespaced_deployment (DEPLOYMENT_NAME cfg) (NAMESPACE cfg) (restart_patch w))
                  (patch_response w))
               (notify_all_channels cfg w (''Remediation triggered: '' @ restart_msg cfg)))
            (\<lambda>err. logging ERROR (''Failed to restart: '' @ err)))"

subsection \<open>The monitor loop (lines 131-156)\<close>

text \<open>
  Decimal text of an integer and the text of a list of names, for the log line. A name
  is shown between single quotes, as \<open>repr\<close> shows a name without quotes or escapes.
\<close>

fun str_nat :: "nat \<Rightarrow> string" where
  "str_nat n =
     (if n < 10 then [''0123456789'' ! n]
      else str_nat (n div 10) @ [''0123456789'' ! (n mod 10)])"

declare str_nat.simps [simp del]

definition str_int :: "int \<Rightarrow> string" where
  "str_int i = (if i < 0 then CHR ''-'' # str_nat (nat (- i)) else str_nat (nat i))"

fun join_names :: "string list \<Rightarrow> string" where
  "join_names [] = []"
| "join_names [x] = [CHR 39] @ x @ [CHR 39]"
| "join_names (x # y # zs) = [CHR 39] @ x @ [CHR 39] @ '', '' @ join_names (y # zs)"

definition str_list :: "string list \<Rightarrow> string" where
  "str_list xs = ''['' @ join_names xs @ '']''"

text \<open>
  The \<open>try\<close> block of one iteration (lines 143-153): the events, the exception that left
  the block if one did, and \<open>failure_count\<close> as the block leaves it. The counter is a
  variable of \<open>run_monitor\<close>, so an assignment made before an exception stays.
\<close>

definition try_block :: "config \<Rightarrow> bool \<Rightarrow> world \<Rightarrow> int \<Rightarrow> event list \<times> exn option \<times> int" where
  "try_block cfg dry_run w failure_count =
     (case get_unhealthy_pods cfg w of
        (es, Inl err) \<Rightarrow> (es, Some err, failure_count)
      | (es, Inr broken_pods) \<Rightarrow>
          if broken_pods \<noteq> [] then
            (let failure_count = failure_count + 1;
                 es1 = es @ [Log WARNING (''Detected unhealthy pods: '' @ str_list broken_pods
                                @ '' (failure #'' @ str_int failure_count @ '')'')]
             in if failure_count \<ge> FAILURE_THRESHOLD cfg then
                  (case restart_nginx_controller cfg w dry_run of
                     (es2, Inl err) \<Rightarrow> (es1 @ es2, Some err, failure_count)
                   | (es2, Inr _) \<Rightarrow> (es1 @ es2, None, 0))
                else (es1, None, failure_count))
          else (es @ [Log INFO ''All NGINX pods are healthy''], None, 0))"

text \<open>
  \<open>time.sleep(secs)\<close> raises \<open>ValueError\<close> for a negative argument and \<open>OverflowError\<close>
  for one whose nanoseconds do not fit a signed 64-bit integer (CPython: more than
  9223372036 seconds); otherwise it returns.
\<close>

definition sleep_limit :: int where
  "sleep_limit = 9223372036"

definition time_sleep :: "int \<Rightarrow> unit io" where
  "time_sleep secs =
     ([Time_sleep secs],
      if secs < 0 then Inl ''sleep length must be non-negative''
      else if sleep_limit < secs then Inl ''timestamp too large to convert to C _PyTime_t''
      else Inr ())"

text \<open>
  One pass of the body of \<open>while True\<close> (lines 141-156): its events, up to and including
  the call of \<open>time.sleep\<close>, and \<open>failure_count\<close> after it. An exception of the \<open>try\<close> block
  is caught at line 154. The call of \<open>time.sleep\<close> at line 156 is outside the \<open>try\<close>: its
  exception leaves the pass and the loop, which \<open>monitor_loop\<close> below follows.
\<close>

definition loop_iteration :: "config \<Rightarrow> bool \<Rightarrow> world \<Rightarrow> int \<Rightarrow> event list \<times> int" where
  "loop_iteration cfg dry_run w failure_count =
     (case try_block cfg dry_run w failure_count of
        (es, None, fc) \<Rightarrow>
          ([Print ''Next Lopp''] @ es @ fst (time_sleep (CHECK_EVERY cfg)), fc)
      | (es, Some monitor_err, fc) \<Rightarrow>
          ([Print ''Next Lopp''] @ es
             @ [Log ERROR (''Monitoring error: '' @ monitor_err)] @ fst (time_sleep (CHECK_EVERY cfg)), fc))"

text \<open>
  The passes over a list of polls: each pass starts with the counter that the pass before
  it left, and the result has for each pass its events and the value of \<open>failure_count\<close>
  after it. This is the loop as far as it gets: whether it gets to the next poll is up
  to \<open>time.sleep\<close>, and \<open>monitor_loop\<close> says so.
\<close>

fun while_True :: "config \<Rightarrow> bool \<Rightarrow> int \<Rightarrow> world list \<Rightarrow> (event list \<times> int) list" where
  "while_True cfg dry_run failure_count [] = []"
| "while_True cfg dry_run failure_count (w # ws) =
     (case loop_iteration cfg dry_run w failure_count of
        (es, fc) \<Rightarrow> (es, fc) # while_True cfg dry_run fc ws)"

text \<open>\<open>failure_count\<close> at the top of the iteration that follows the given ones.\<close>

definition count_after :: "int \<Rightarrow> (event list \<times> int) list \<Rightarrow> int" where
  "count_after failure_count steps = (if steps = [] then failure_count else snd (last steps))"

text \<open>
  The loop (lines 140-156) on a finite list of worlds, the answers of the outside to the
  polls it may make. The loop itself never returns: the result is the passes made and
  the exception that ended the loop, \<open>None\<close> while it is still running after the last
  world. A pass whose \<open>time.sleep\<close> raises is the last one.
\<close>

fun monitor_loop :: "config \<Rightarrow> bool \<Rightarrow> int \<Rightarrow> world list \<Rightarrow> (event list \<times> int) list \<times> exn option" where
  "monitor_loop cfg dry_run failure_count [] = ([], None)"
| "monitor_loop cfg dry_run failure_count (w # ws) =
     (case loop_iteration cfg dry_run w failure_count of
        (es, fc) \<Rightarrow>
          (case snd (time_sleep (CHECK_EVERY cfg)) of
             Inl err \<Rightarrow> ([(es, fc)], Some err)
           | Inr x \<Rightarrow>
               (case monitor_loop cfg dry_run fc ws of
                  (steps, ended) \<Rightarrow> ((es, fc) # steps, ended))))"

text \<open>
  \<open>run_monitor\<close>: loading the cluster credentials (lines 132-135; the second failure is not
  caught), the start line of the log, \<open>failure_count = 0\<close> and the loop. The result is the
  events before the loop, the passes of the loop and the exception that ended the
  program, if one did.
\<close>

record startup =
  load_kube_config :: "exn option"
  load_incluster_config :: "exn option"

definition run_monitor :: "config \<Rightarrow> startup \<Rightarrow> bool \<Rightarrow> world list \<Rightarrow> event list \<times> (event list \<times> int) list \<times> exn option" where
  "run_monitor cfg st dry_run ws =
     (case (case load_kube_config st of None \<Rightarrow> None | Some e \<Rightarrow> load_incluster_config st) of
        Some err \<Rightarrow> ([], [], Some err)
      | None \<Rightarrow>
          (case monitor_loop cfg dry_run 0 ws of
             (steps, ended) \<Rightarrow> ([Log INFO ''NGINX health monitor started''], steps, ended)))"

subsection \<open>Observations of a run\<close>

text \<open>
  The outcome of a poll, read off the result of \<open>get_unhealthy_pods\<close> the way the loop
  reads it: an exception, an empty list, or a list with a name in it.
\<close>

datatype outcome = Healthy | Unhealthy | InspectionError

definition classify :: "config \<Rightarrow> world \<Rightarrow> outcome" where
  "classify cfg w =
     (case snd (get_unhealthy_pods cfg w) of
        Inl err \<Rightarrow> InspectionError
      | Inr broken_pods \<Rightarrow> if broken_pods \<noteq> [] then Unhealthy else Healthy)"

text \<open>
  Remediation fired in an iteration when \<open>restart_nginx_controller\<close> was entered: its
  first statement logs the restart message, and nothing else logs it.
\<close>

definition remediation_fired :: "config \<Rightarrow> event list \<Rightarrow> bool" where
  "remediation_fired cfg es = (Log INFO (restart_msg cfg) \<in> set es)"

text \<open>A delivery attempt on a notification channel: a webhook request or a mail.\<close>

definition is_send :: "event \<Rightarrow> bool" where
  "is_send e = (case e of Requests_post url body \<Rightarrow> True | Smtp_send_message host msg \<Rightarrow> True | _ \<Rightarrow> False)"

text \<open>
  The history of a run: for each iteration its outcome and whether remediation fired in
  it. The trailing run of a history is counted from its end: inspection errors are
  passed over, and the count stops at a healthy outcome or at a remediation.
\<close>

definition history :: "config \<Rightarrow> bool \<Rightarrow> world list \<Rightarrow> (outcome \<times> bool) list" where
  "history cfg dry_run ws =
     zip (map (classify cfg) ws)
         (map (\<lambda>(es, fc). remediation_fired cfg es) (while_True cfg dry_run 0 ws))"

definition trailing_run :: "(outcome \<times> bool) list \<Rightarrow> nat" where
  "trailing_run h =
     length (takeWhile (\<lambda>(oc, fired). oc = Unhealthy \<and> \<not> fired)
               (rev (filter (\<lambda>(oc, fired). oc \<noteq> InspectionError) h)))"

text \<open>
  The number of unhealthy polls at the end of a sequence of outcomes with no healthy poll
  among them (polls whose inspection failed gave no observation and are passed over);
  and the number of consecutive polls at the end of the sequence that are unhealthy.
\<close>

definition consecutive_unhealthy :: "outcome list \<Rightarrow> nat" where
  "consecutive_unhealthy ocs = length (takeWhile (\<lambda>oc. oc = Unhealthy) (rev ocs))"

definition unhealthy_streak :: "outcome list \<Rightarrow> nat" where
  "unhealthy_streak ocs =
     length (takeWhile (\<lambda>oc. oc = Unhealthy) (rev (filter (\<lambda>oc. oc \<noteq> InspectionError) ocs)))"

text \<open>
  The counter as a function of the threshold and the outcomes alone: for each iteration,
  whether remediation fires and the counter after it. The loop is shown to follow it.
\<close>

fun machine :: "int \<Rightarrow> int \<Rightarrow> outcome list \<Rightarrow> (bool \<times> int) list" where
  "machine thr fc [] = []"
| "machine thr fc (oc # ocs) =
     (case oc of
        InspectionError \<Rightarrow> (False, fc) # machine thr fc ocs
      | Healthy \<Rightarrow> (False, 0) # machine thr 0 ocs
      | Unhealthy \<Rightarrow>
          if thr \<le> fc + 1 then (True, 0) # machine thr 0 ocs
          else (False, fc + 1) # machine thr (fc + 1) ocs)"

text \<open>
  A pod is unhealthy when one of its containers reports that it is not ready; a pod
  without container statuses is not. \<open>unready_count\<close> counts those containers.
\<close>

definition unhealthy_pod :: "v1_pod \<Rightarrow> bool" where
  "unhealthy_pod pod =
     (case status_container_statuses pod of
        None \<Rightarrow> False
      | Some cs \<Rightarrow> list_ex (\<lambda>c. \<not> ready c) cs)"

definition unready_count :: "v1_pod \<Rightarrow> nat" where
  "unready_count pod =
     (case status_container_statuses pod of
        None \<Rightarrow> 0
      | Some cs \<Rightarrow> length (filter (\<lambda>c. \<not> ready c) cs))"

subsection \<open>Sample environments, pods and worlds\<close>

definition empty_environ :: environ where
  "empty_environ =
     \<lparr> env_NGINX_NAMESPACE = None, env_NGINX_DEPLOYMENT = None, env_SLACK_HOOK_URL = None,
       env_PAGERDUTY_ROUTING_KEY = None, env_EMAIL_FROM = None, env_EMAIL_TO = None,
       env_SMTP_HOST = None, env_CHECK_INTERVAL = None, env_FAILURE_LIMIT = None \<rparr>"

definition default_config :: config where
  "default_config = load_config empty_environ"

definition alerting_config :: config where
  "alerting_config =
     load_config (empty_environ
       \<lparr> env_SLACK_HOOK_URL := Some ''https://hooks.slack.test/T0'',
         env_PAGERDUTY_ROUTING_KEY := Some ''R0'',
         env_EMAIL_FROM := Some ''monitor@cluster.test'',
         env_EMAIL_TO := Some ''oncall@cluster.test'' \<rparr>)"

definition zero_limit_config :: config where
  "zero_limit_config = load_config (empty_environ \<lparr> env_FAILURE_LIMIT := Some 0 \<rparr>)"

definition negative_interval_config :: config where
  "negative_interval_config = load_config (empty_environ \<lparr> env_CHECK_INTERVAL := Some (- 1) \<rparr>)"

definition one_shot_config :: config where
  "one_shot_config =
     load_config (empty_environ \<lparr> env_CHECK_INTERVAL := Some (- 1), env_FAILURE_LIMIT := Some 1 \<rparr>)"

definition ready_pod :: v1_pod where
  "ready_pod = \<lparr> metadata_name = ''ctl-a'', status_container_statuses = Some [\<lparr> ready = True \<rparr>] \<rparr>"

definition unready_pod :: v1_pod where
  "unready_pod =
     \<lparr> metadata_name = ''ctl-b'',
       status_container_statuses = Some [\<lparr> ready = False \<rparr>, \<lparr> ready = True \<rparr>, \<lparr> ready = False \<rparr>] \<rparr>"

definition pending_pod :: v1_pod where
  "pending_pod = \<lparr> metadata_name = ''ctl-c'', status_container_statuses = None \<rparr>"

definition healthy_world :: world where
  "healthy_world =
     \<lparr> pods_response = Inr [ready_pod, pending_pod], patch_response = Inr (),
       slack_response = Inr 200, message_response = None, smtp_response = Inr [],
       pagerduty_response = Inr 202, time_time = ''1730000000.5'' \<rparr>"

definition unhealthy_world :: world where
  "unhealthy_world = healthy_world \<lparr> pods_response := Inr [ready_pod, unready_pod, pending_pod] \<rparr>"

definition error_world :: world where
  "error_world = healthy_world \<lparr> pods_response := Inl ''connection refused'' \<rparr>"

definition patch_fails_world :: world where
  "patch_fails_world = unhealthy_world \<lparr> patch_response := Inl ''403 Forbidden'' \<rparr>"

definition unreachable_world :: world where
  "unreachable_world =
     unhealthy_world \<lparr> slack_response := Inl ''timeout'', smtp_response := Inl ''relay refused'',
       pagerduty_response := Inl ''timeout'' \<rparr>"

definition rejected_world :: world where
  "rejected_world =
     unhealthy_world \<lparr> slack_response := Inr 404, pagerduty_response := Inr 400 \<rparr>"

section \<open>Properties\<close>

subsection \<open>Exceptions are caught where the source catches them\<close>

lemma time_sleep_events: "fst (time_sleep secs) = [Time_sleep secs]"
  by (simp add: time_sleep_def)

lemma try_except_logging:
  "try_except (b :: unit io) (\<lambda>err. logging lvl (f err)) =
     (fst b @ (case snd b of Inl err \<Rightarrow> [Log lvl (f err)] | Inr _ \<Rightarrow> []), Inr ())"
  by (cases b) (simp add: try_except_def logging_def split: sum.splits)

lemma logging_fst: "fst (logging lvl s) = [Log lvl s]" and logging_snd: "snd (logging lvl s) = Inr ()"
  by (simp_all add: logging_def)

lemma then_io_eq:
  "then_io m n = (case snd m of Inl err \<Rightarrow> (fst m, Inl err) | Inr _ \<Rightarrow> (fst m @ fst n, snd n))"
  by (cases m; cases n) (simp add: then_io_def bind_io_def split: sum.splits)

lemma notify_slack_returns: "snd (notify_slack cfg w m) = Inr ()"
  by (simp add: notify_slack_def try_except_logging logging_snd)

lemma notify_email_returns: "snd (notify_email cfg w s b) = Inr ()"
  by (simp add: notify_email_def try_except_logging logging_snd)

lemma notify_pagerduty_returns: "snd (notify_pagerduty cfg w m) = Inr ()"
  by (simp add: notify_pagerduty_def try_except_logging logging_snd)

lemma notify_all_channels_eq:
  "notify_all_channels cfg w m =
     (Log INFO (''Alert: '' @ m) # fst (notify_slack cfg w m) @ fst (notify_email cfg w ''NGINX Health Alert'' m)
        @ fst (notify_pagerduty cfg w m), Inr ())"
  by (simp add: notify_all_channels_def then_io_eq notify_slack_returns notify_email_returns
      notify_pagerduty_returns logging_fst logging_snd)

lemma restart_returns: "snd (restart_nginx_controller cfg w d) = Inr ()"
  by (simp add: restart_nginx_controller_def then_io_eq logging_snd try_except_logging)

lemma restart_logs_msg: "Log INFO (restart_msg cfg) \<in> set (fst (restart_nginx_controller cfg w d))"
  by (simp add: restart_nginx_controller_def then_io_eq logging_snd logging_fst)



lemma restart_msg_neq: "restart_msg cfg \<noteq> ''All NGINX pods are healthy''"
  by (simp add: restart_msg_def)

lemma try_block_error:
  "pods_response w = Inl err \<Longrightarrow>
   try_block cfg d w fc =
     ([List_namespaced_pod (NAMESPACE cfg) ''app.kubernetes.io/component=controller''], Some err, fc)"
  by (simp add: try_block_def get_unhealthy_pods_def)

lemma try_block_healthy:
  "pods_response w = Inr items \<Longrightarrow> problem_pods_of items = [] \<Longrightarrow>
   try_block cfg d w fc =
     ([List_namespaced_pod (NAMESPACE cfg) ''app.kubernetes.io/component=controller'',
       Log INFO ''All NGINX pods are healthy''], None, 0)"
  by (simp add: try_block_def get_unhealthy_pods_def)

lemma try_block_below:
  "pods_response w = Inr items \<Longrightarrow> problem_pods_of items \<noteq> [] \<Longrightarrow> \<not> FAILURE_THRESHOLD cfg \<le> fc + 1 \<Longrightarrow>
   try_block cfg d w fc =
     ([List_namespaced_pod (NAMESPACE cfg) ''app.kubernetes.io/component=controller'',
       Log WARNING (''Detected unhealthy pods: '' @ str_list (problem_pods_of items)
                      @ '' (failure #'' @ str_int (fc + 1) @ '')'')], None, fc + 1)"
  by (simp add: try_block_def get_unhealthy_pods_def Let_def)

lemma try_block_remediate:
  "pods_response w = Inr items \<Longrightarrow> problem_pods_of items \<noteq> [] \<Longrightarrow> FAILURE_THRESHOLD cfg \<le> fc + 1 \<Longrightarrow>
   try_block cfg d w fc =
     ([List_namespaced_pod (NAMESPACE cfg) ''app.kubernetes.io/component=controller'',
       Log WARNING (''Detected unhealthy pods: '' @ str_list (problem_pods_of items)
                      @ '' (failure #'' @ str_int (fc + 1) @ '')'')]
        @ fst (restart_nginx_controller cfg w d), None, 0)"
  using restart_returns [of cfg w d]
  by (cases "restart_nginx_controller cfg w d") (simp add: try_block_def get_unhealthy_pods_def Let_def)

lemma classify_cases:
  "classify cfg w =
     (case pods_response w of Inl err \<Rightarrow> InspectionError
      | Inr items \<Rightarrow> if problem_pods_of items \<noteq> [] then Unhealthy else Healthy)"
  by (simp add: classify_def get_unhealthy_pods_def split: sum.splits)

lemma iteration_count:
  "snd (loop_iteration cfg d w fc) =
     (case classify cfg w of
        InspectionError \<Rightarrow> fc
      | Healthy \<Rightarrow> 0
      | Unhealthy \<Rightarrow> if FAILURE_THRESHOLD cfg \<le> fc + 1 then 0 else fc + 1)"
proof (cases "pods_response w")
  case (Inl err)
  then show ?thesis
    by (simp add: loop_iteration_def time_sleep_events try_block_error classify_cases)
next
  case (Inr items)
  show ?thesis
  proof (cases "problem_pods_of items = []")
    case True
    with Inr show ?thesis
      by (simp add: loop_iteration_def time_sleep_events try_block_healthy classify_cases)
  next
    case False
    with Inr show ?thesis
      by (cases "FAILURE_THRESHOLD cfg \<le> fc + 1")
        (simp_all add: loop_iteration_def time_sleep_events try_block_below try_block_remediate classify_cases)
  qed
qed

lemma iteration_fired:
  "remediation_fired cfg (fst (loop_iteration cfg d w fc)) \<longleftrightarrow>
     classify cfg w = Unhealthy \<and> FAILURE_THRESHOLD cfg \<le> fc + 1"
proof (cases "pods_response w")
  case (Inl err)
  then show ?thesis
    by (simp add: loop_iteration_def time_sleep_events try_block_error classify_cases remediation_fired_def)
next
  case (Inr items)
  show ?thesis
  proof (cases "problem_pods_of items = []")
    case True
    with Inr show ?thesis
      by (simp add: loop_iteration_def time_sleep_events try_block_healthy classify_cases remediation_fired_def restart_msg_neq)
  next
    case False
    with Inr show ?thesis
      by (cases "FAILURE_THRESHOLD cfg \<le> fc + 1")
        (simp_all add: loop_iteration_def time_sleep_events try_block_below try_block_remediate classify_cases
          remediation_fired_def restart_logs_msg)
  qed
qed

lemma while_True_machine:
  "map (\<lambda>(es, fc). (remediation_fired cfg es, fc)) (while_True cfg d fc ws) =
     machine (FAILURE_THRESHOLD cfg) fc (map (classify cfg) ws)"
proof (induction ws arbitrary: fc)
  case Nil
  show ?case by simp
next
  case (Cons w ws)
  obtain es fc' where it: "loop_iteration cfg d w fc = (es, fc')"
    by (cases "loop_iteration cfg d w fc")
  have c: "fc' = (case classify cfg w of InspectionError \<Rightarrow> fc | Healthy \<Rightarrow> 0
      | Unhealthy \<Rightarrow> if FAILURE_THRESHOLD cfg \<le> fc + 1 then 0 else fc + 1)"
    using iteration_count [of cfg d w fc] it by simp
  have f: "remediation_fired cfg es \<longleftrightarrow> classify cfg w = Unhealthy \<and> FAILURE_THRESHOLD cfg \<le> fc + 1"
    using iteration_fired [of cfg d w fc] it by simp
  show ?case
    using Cons.IH [of fc'] it c f
    by (cases "classify cfg w") (simp_all split: if_splits)
qed

lemma while_True_length: "length (while_True cfg d fc ws) = length ws"
  by (induction ws arbitrary: fc) (simp_all split: prod.splits)

lemma while_True_snoc:
  "while_True cfg d fc (ws @ [w]) =
     while_True cfg d fc ws @ [loop_iteration cfg d w (count_after fc (while_True cfg d fc ws))]"
proof (induction ws arbitrary: fc)
  case Nil
  show ?case by (simp add: count_after_def split: prod.splits)
next
  case (Cons v vs)
  obtain es fc' where it: "loop_iteration cfg d v fc = (es, fc')"
    by (cases "loop_iteration cfg d v fc")
  have "count_after fc ((es, fc') # while_True cfg d fc' vs) = count_after fc' (while_True cfg d fc' vs)"
    by (simp add: count_after_def)
  then show ?case
    using Cons.IH [of fc'] it by simp
qed

text \<open>
  The loop gets as far as \<open>time.sleep\<close> lets it: with an interval that \<open>time.sleep\<close>
  accepts it makes every pass of \<open>while_True\<close>, otherwise the first pass only and ends with
  the exception. Either way its passes are the passes of \<open>while_True\<close> over the polls made.
\<close>

lemma time_sleep_returns:
  "snd (time_sleep secs) = Inr () \<longleftrightarrow> 0 \<le> secs \<and> secs \<le> sleep_limit"
  by (simp add: time_sleep_def)

lemma monitor_loop_sleeping:
  "0 \<le> CHECK_EVERY cfg \<and> CHECK_EVERY cfg \<le> sleep_limit \<Longrightarrow>
   monitor_loop cfg d fc ws = (while_True cfg d fc ws, None)"
  by (induction ws arbitrary: fc) (simp_all add: time_sleep_def split: prod.splits)

lemma monitor_loop_sleep_raises:
  "snd (time_sleep (CHECK_EVERY cfg)) = Inl err \<Longrightarrow>
   monitor_loop cfg d fc (w # ws) = ([loop_iteration cfg d w fc], Some err)"
  by (simp split: prod.splits)

lemma monitor_loop_passes:
  "\<exists>n \<le> length ws. fst (monitor_loop cfg d fc ws) = while_True cfg d fc (take n ws)"
proof (cases "0 \<le> CHECK_EVERY cfg \<and> CHECK_EVERY cfg \<le> sleep_limit")
  case True
  then have "fst (monitor_loop cfg d fc ws) = while_True cfg d fc (take (length ws) ws)"
    by (simp add: monitor_loop_sleeping)
  then show ?thesis by blast
next
  case False
  then have "snd (time_sleep (CHECK_EVERY cfg)) =
      Inl (if CHECK_EVERY cfg < 0 then ''sleep length must be non-negative''
           else ''timestamp too large to convert to C _PyTime_t'')"
    by (auto simp: time_sleep_def)
  then obtain err where e: "snd (time_sleep (CHECK_EVERY cfg)) = Inl err"
    by blast
  show ?thesis
  proof (cases ws)
    case Nil
    then show ?thesis by simp
  next
    case (Cons w vs)
    then have "fst (monitor_loop cfg d fc ws) = while_True cfg d fc (take 1 ws)"
      using e by (simp add: monitor_loop_sleep_raises split: prod.splits)
    moreover have "1 \<le> length ws"
      using Cons by simp
    ultimately show ?thesis by blast
  qed
qed

text \<open>
  Once one of the two credential loaders returns, \<open>run_monitor\<close> logs the start and runs
  the loop from \<open>failure_count = 0\<close>; when both raise, the second exception ends the program.
\<close>

lemma run_monitor_enters_loop:
  "load_kube_config st = None \<or> load_incluster_config st = None \<Longrightarrow>
   run_monitor cfg st dry_run ws =
     ([Log INFO ''NGINX health monitor started''], monitor_loop cfg dry_run 0 ws)"
  by (auto simp: run_monitor_def split: option.splits prod.splits)

lemma run_monitor_no_credentials:
  "load_kube_config st = Some e1 \<Longrightarrow> load_incluster_config st = Some e2 \<Longrightarrow>
   run_monitor cfg st dry_run ws = ([], [], Some e2)"
  by (simp add: run_monitor_def)

subsection \<open>The list the inspector returns\<close>

lemma container_loop_eq:
  "container_loop name acc cs = acc @ replicate (length (filter (\<lambda>c. \<not> ready c) cs)) name"
  unfolding container_loop_def
  by (induction cs arbitrary: acc) (simp_all add: replicate_app_Cons_same)

lemma pod_step_eq: "pod_step acc pod = acc @ replicate (unready_count pod) (metadata_name pod)"
  by (simp add: pod_step_def unready_count_def container_loop_eq split: option.splits)

lemma foldl_pod_step:
  "foldl pod_step acc items = acc @ concat (map (\<lambda>p. replicate (unready_count p) (metadata_name p)) items)"
  by (induction items arbitrary: acc) (simp_all add: pod_step_eq)

lemma problem_pods_of_eq:
  "problem_pods_of items = concat (map (\<lambda>p. replicate (unready_count p) (metadata_name p)) items)"
  by (simp add: problem_pods_of_def foldl_pod_step)

lemma unhealthy_pod_count: "unhealthy_pod pod \<longleftrightarrow> 0 < unready_count pod"
  by (auto simp: unhealthy_pod_def unready_count_def list_ex_iff filter_empty_conv split: option.splits)

lemma remdups_adj_replicate_append:
  "0 < k \<Longrightarrow> remdups_adj (replicate k x @ ys) = remdups_adj (x # ys)"
proof (induction k)
  case 0
  then show ?case by simp
next
  case (Suc k)
  show ?case
  proof (cases k)
    case 0
    then show ?thesis by simp
  next
    case (Suc j)
    with Suc.IH have "remdups_adj (replicate k x @ ys) = remdups_adj (x # ys)" by simp
    moreover have "remdups_adj (x # replicate k x @ ys) = remdups_adj (replicate k x @ ys)"
      using Suc by simp
    ultimately show ?thesis by simp
  qed
qed

lemma remdups_adj_cong_Cons:
  assumes "remdups_adj ys = remdups_adj zs"
  shows "remdups_adj (x # ys) = remdups_adj (x # zs)"
proof -
  have "remdups_adj (x # ys) = (case remdups_adj ys of [] \<Rightarrow> [x] | y # xs \<Rightarrow> if x = y then y # xs else x # y # xs)"
    by (rule remdups_adj_Cons)
  also have "\<dots> = (case remdups_adj zs of [] \<Rightarrow> [x] | y # xs \<Rightarrow> if x = y then y # xs else x # y # xs)"
    by (simp only: assms)
  also have "\<dots> = remdups_adj (x # zs)"
    by (rule remdups_adj_Cons [symmetric])
  finally show ?thesis .
qed

lemma problem_pods_order:
  "remdups_adj (problem_pods_of items) = remdups_adj (map metadata_name (filter unhealthy_pod items))"
  unfolding problem_pods_of_eq
proof (induction items)
  case Nil
  show ?case by simp
next
  case (Cons p ps)
  let ?rest = "concat (map (\<lambda>p. replicate (unready_count p) (metadata_name p)) ps)"
  show ?case
  proof (cases "unhealthy_pod p")
    case True
    then have "0 < unready_count p" by (simp add: unhealthy_pod_count)
    then have "remdups_adj (replicate (unready_count p) (metadata_name p) @ ?rest)
        = remdups_adj (metadata_name p # ?rest)"
      by (rule remdups_adj_replicate_append)
    also have "\<dots> = remdups_adj (metadata_name p # map metadata_name (filter unhealthy_pod ps))"
      using Cons.IH by (rule remdups_adj_cong_Cons)
    finally show ?thesis
      using True by simp
  next
    case False
    then have "unready_count p = 0" by (simp add: unhealthy_pod_count)
    then show ?thesis
      using Cons.IH False by simp
  qed
qed

lemma problem_pods_set:
  "set (problem_pods_of items) = metadata_name ` {p \<in> set items. unhealthy_pod p}"
  by (auto simp: problem_pods_of_eq unhealthy_pod_count)

lemmas sample_defs = empty_environ_def default_config_def alerting_config_def zero_limit_config_def
  negative_interval_config_def one_shot_config_def ready_pod_def unready_pod_def pending_pod_def healthy_world_def
  unhealthy_world_def error_world_def patch_fails_world_def unreachable_world_def
  rejected_world_def load_config_def getenv_def

lemma call_eq:
  "call ev response = ([ev], case response of Inl err \<Rightarrow> Inl err | Inr x \<Rightarrow> Inr ())"
  by (simp add: call_def)

lemma notify_slack_eq:
  "notify_slack cfg w message =
     (if \<not> truthy (SLACK_HOOK_URL cfg) then
        [Log WARNING ''Slack URL not set, skipping Slack notification'']
      else
        Requests_post (SLACK_HOOK_URL cfg) (JObj [(''text'', JStr message)])
          # (case slack_response w of Inl err \<Rightarrow> [Log ERROR (''Slack error: '' @ err)] | Inr status \<Rightarrow> []),
      Inr ())"
  by (simp add: notify_slack_def try_except_logging call_eq split: sum.splits)
    (simp add: logging_def)

lemma notify_email_eq:
  "notify_email cfg w subject body =
     (if \<not> (truthy (EMAIL_FROM cfg) \<and> truthy (EMAIL_TO cfg) \<and> truthy_str (SMTP_HOST cfg)) then
        [Log WARNING ''Email config incomplete, skipping email'']
      else
        (case message_response w of
           Some err \<Rightarrow> [Log ERROR (''Email error: '' @ err)]
         | None \<Rightarrow>
             Smtp_send_message (SMTP_HOST cfg)
                 \<lparr> msg_content = body, msg_Subject = subject,
                   msg_From = EMAIL_FROM cfg, msg_To = EMAIL_TO cfg \<rparr>
               # (case smtp_response w of Inl err \<Rightarrow> [Log ERROR (''Email error: '' @ err)]
                  | Inr refused \<Rightarrow> [])),
      Inr ())"
  by (simp add: notify_email_def try_except_logging then_io_eq build_message_def call_eq
      split: sum.splits option.splits)
    (simp add: logging_def)

lemma notify_pagerduty_eq:
  "notify_pagerduty cfg w message =
     (if \<not> truthy (PAGERDUTY_ROUTING_KEY cfg) then
        [Log WARNING ''PagerDuty key not set, skipping notification'']
      else
        Requests_post (Some ''https://events.pagerduty.com/v2/enqueue'')
            (JObj [(''routing_key'', json_of (PAGERDUTY_ROUTING_KEY cfg)),
                   (''event_action'', JStr ''trigger''),
                   (''payload'', JObj [(''summary'', JStr message),
                                       (''severity'', JStr ''critical''),
                                       (''source'', JStr ''nginx-ingress-monitor'')])])
          # (case pagerduty_response w of Inl err \<Rightarrow> [Log ERROR (''PagerDuty error: '' @ err)]
             | Inr status \<Rightarrow> []),
      Inr ())"
  by (simp add: notify_pagerduty_def try_except_logging call_eq split: sum.splits)
    (simp add: logging_def)

subsection \<open>The notification fan-out\<close>

text \<open>
  Claim C7, as amended. For every message, every configuration of the channels and every
  outcome of the deliveries, \<open>notify_all_channels\<close> returns without raising. It logs the
  alert and then runs the Slack, the email and the PagerDuty function, each in full
  whatever the others did. A channel that is not configured logs one warning and sends
  nothing. A configured channel makes its one delivery call (the email channel after
  building the message) and, when building or the call raises, logs the error and
  returns; when the call returns it logs nothing, whatever the call returned.
\<close>

theorem notify_fan_out_never_raises:
  "snd (notify_all_channels cfg w message) = Inr ()
   \<and> fst (notify_all_channels cfg w message) =
       Log INFO (''Alert: '' @ message)
         # fst (notify_slack cfg w message)
         @ fst (notify_email cfg w ''NGINX Health Alert'' message)
         @ fst (notify_pagerduty cfg w message)
   \<and> notify_slack cfg w message =
       (if \<not> truthy (SLACK_HOOK_URL cfg) then
          [Log WARNING ''Slack URL not set, skipping Slack notification'']
        else
          Requests_post (SLACK_HOOK_URL cfg) (JObj [(''text'', JStr message)])
            # (case slack_response w of
                 Inl err \<Rightarrow> [Log ERROR (''Slack error: '' @ err)]
               | Inr status \<Rightarrow> []),
        Inr ())
   \<and> notify_email cfg w ''NGINX Health Alert'' message =
       (if \<not> (truthy (EMAIL_FROM cfg) \<and> truthy (EMAIL_TO cfg) \<and> truthy_str (SMTP_HOST cfg)) then
          [Log WARNING ''Email config incomplete, skipping email'']
        else
          (case message_response w of
             Some err \<Rightarrow> [Log ERROR (''Email error: '' @ err)]
           | None \<Rightarrow>
               Smtp_send_message (SMTP_HOST cfg)
                   \<lparr> msg_content = message, msg_Subject = ''NGINX Health Alert'',
                     msg_From = EMAIL_FROM cfg, msg_To = EMAIL_TO cfg \<rparr>
                 # (case smtp_response w of
                      Inl err \<Rightarrow> [Log ERROR (''Email error: '' @ err)]
                    | Inr refused \<Rightarrow> [])),
        Inr ())
   \<and> notify_pagerduty cfg w message =
       (if \<not> truthy (PAGERDUTY_ROUTING_KEY cfg) then
          [Log WARNING ''PagerDuty key not set, skipping notification'']
        else
          Requests_post (Some ''https://events.pagerduty.com/v2/enqueue'')
              (JObj [(''routing_key'', json_of (PAGERDUTY_ROUTING_KEY cfg)),
                     (''event_action'', JStr ''trigger''),
                     (''payload'', JObj [(''summary'', JStr message),
                                         (''severity'', JStr ''critical''),
                                         (''source'', JStr ''nginx-ingress-monitor'')])])
            # (case pagerduty_response w of
                 Inl err \<Rightarrow> [Log ERROR (''PagerDuty error: '' @ err)]
               | Inr status \<Rightarrow> []),
        Inr ())"
proof (intro conjI)
  show "snd (notify_all_channels cfg w message) = Inr ()"
    by (simp add: notify_all_channels_eq)
  show "fst (notify_all_channels cfg w message) =
       Log INFO (''Alert: '' @ message)
         # fst (notify_slack cfg w message)
         @ fst (notify_email cfg w ''NGINX Health Alert'' message)
         @ fst (notify_pagerduty cfg w message)"
    by (simp add: notify_all_channels_eq)
qed (rule notify_slack_eq notify_email_eq notify_pagerduty_eq)+

lemma alerting_values:
  "SLACK_HOOK_URL alerting_config = Some ''https://hooks.slack.test/T0''"
  "PAGERDUTY_ROUTING_KEY alerting_config = Some ''R0''"
  "EMAIL_FROM alerting_config = Some ''monitor@cluster.test''"
  "EMAIL_TO alerting_config = Some ''oncall@cluster.test''"
  "SMTP_HOST alerting_config = ''localhost''"
  "slack_response unreachable_world = Inl ''timeout''"
  "message_response unreachable_world = None"
  "smtp_response unreachable_world = Inl ''relay refused''"
  "pagerduty_response unreachable_world = Inl ''timeout''"
  "slack_response rejected_world = Inr 404"
  "message_response rejected_world = None"
  "smtp_response rejected_world = Inr []"
  "pagerduty_response rejected_world = Inr 400"
  by (simp_all add: sample_defs)

text \<open>All three channels are configured and every delivery call raises.\<close>

theorem notify_fan_out_witness:
  "notify_all_channels alerting_config unreachable_world ''down'' =
     ([Log INFO ''Alert: down'',
       Requests_post (Some ''https://hooks.slack.test/T0'') (JObj [(''text'', JStr ''down'')]),
       Log ERROR ''Slack error: timeout'',
       Smtp_send_message ''localhost''
         \<lparr> msg_content = ''down'', msg_Subject = ''NGINX Health Alert'',
           msg_From = Some ''monitor@cluster.test'', msg_To = Some ''oncall@cluster.test'' \<rparr>,
       Log ERROR ''Email error: relay refused'',
       Requests_post (Some ''https://events.pagerduty.com/v2/enqueue'')
         (JObj [(''routing_key'', JStr ''R0''),
                (''event_action'', JStr ''trigger''),
                (''payload'', JObj [(''summary'', JStr ''down''),
                                    (''severity'', JStr ''critical''),
                                    (''source'', JStr ''nginx-ingress-monitor'')])]),
       Log ERROR ''PagerDuty error: timeout''], Inr ())"
  using notify_fan_out_never_raises [of alerting_config unreachable_world "''down''"]
  by (simp add: alerting_values truthy_str_def prod_eq_iff)

text \<open>
  The claim as stated has every failed delivery logged. Slack answers the webhook request
  with status 404 and PagerDuty the event with status 400: \<open>requests.post\<close> returns the
  response, the source drops it, and no error is logged for either channel.
\<close>

theorem rejected_delivery_logs_nothing:
  "slack_response rejected_world = Inr 404
   \<and> pagerduty_response rejected_world = Inr 400
   \<and> notify_all_channels alerting_config rejected_world ''down'' =
       ([Log INFO ''Alert: down'',
         Requests_post (Some ''https://hooks.slack.test/T0'') (JObj [(''text'', JStr ''down'')]),
         Smtp_send_message ''localhost''
           \<lparr> msg_content = ''down'', msg_Subject = ''NGINX Health Alert'',
             msg_From = Some ''monitor@cluster.test'', msg_To = Some ''oncall@cluster.test'' \<rparr>,
         Requests_post (Some ''https://events.pagerduty.com/v2/enqueue'')
           (JObj [(''routing_key'', JStr ''R0''),
                  (''event_action'', JStr ''trigger''),
                  (''payload'', JObj [(''summary'', JStr ''down''),
                                      (''severity'', JStr ''critical''),
                                      (''source'', JStr ''nginx-ingress-monitor'')])])], Inr ())"
  by (simp add: notify_all_channels_eq notify_slack_eq notify_email_eq notify_pagerduty_eq
      alerting_values truthy_str_def)

subsection \<open>What one remediation does\<close>

lemma restart_eq:
  "restart_nginx_controller cfg w dry_run =
     (Log INFO (restart_msg cfg)
        # (if dry_run then [Log INFO ''[Dry Run] Skipping actual restart'']
           else Patch_namespaced_deployment (DEPLOYMENT_NAME cfg) (NAMESPACE cfg) (restart_patch w)
             # (case patch_response w of
                  Inl err \<Rightarrow> [Log ERROR (''Failed to restart: '' @ err)]
                | Inr x \<Rightarrow> fst (notify_all_channels cfg w (''Remediation triggered: '' @ restart_msg cfg)))),
      Inr ())"
proof (cases dry_run)
  case True
  then show ?thesis
    by (simp add: restart_nginx_controller_def then_io_eq logging_fst logging_snd)
next
  case False
  then show ?thesis
    by (cases "patch_response w")
      (simp_all add: restart_nginx_controller_def then_io_eq logging_fst logging_snd
        try_except_logging call_eq notify_all_channels_eq)
qed

lemma no_send_simps:
  "\<not> is_send (Log lvl s)" "\<not> is_send (Print s)" "\<not> is_send (List_namespaced_pod ns sel)"
  "\<not> is_send (Patch_namespaced_deployment n ns b)" "\<not> is_send (Time_sleep k)"
  "is_send (Requests_post url body)" "is_send (Smtp_send_message host msg)"
  by (simp_all add: is_send_def)



lemma iteration_remediate:
  assumes "pods_response w = Inr items" "problem_pods_of items \<noteq> []" "FAILURE_THRESHOLD cfg \<le> fc + 1"
  shows "loop_iteration cfg d w fc =
     ([Print ''Next Lopp'',
       List_namespaced_pod (NAMESPACE cfg) ''app.kubernetes.io/component=controller'',
       Log WARNING (''Detected unhealthy pods: '' @ str_list (problem_pods_of items)
                      @ '' (failure #'' @ str_int (fc + 1) @ '')'')]
        @ fst (restart_nginx_controller cfg w d) @ [Time_sleep (CHECK_EVERY cfg)], 0)"
  using assms by (simp add: loop_iteration_def time_sleep_events try_block_remediate)

subsection \<open>Inspection failures\<close>




subsection \<open>The email channel\<close>



text \<open>
  The relay host of the configuration is \<open>localhost\<close> when \<open>SMTP_HOST\<close> is unset, so a
  sender and a recipient are enough for the channel to send. When the message cannot be
  built (a header value with a line break inside it), the error is logged and no
  delivery call is made, although all three values are present.
\<close>

lemma email_relay_default:
  "SMTP_HOST (load_config (env \<lparr> env_SMTP_HOST := None \<rparr>)) = ''localhost''"
  "fst (notify_email alerting_config healthy_world ''NGINX Health Alert'' ''down'') =
     [Smtp_send_message ''localhost''
        \<lparr> msg_content = ''down'', msg_Subject = ''NGINX Health Alert'',
          msg_From = Some ''monitor@cluster.test'', msg_To = Some ''oncall@cluster.test'' \<rparr>]"
  by (simp_all add: notify_email_eq sample_defs truthy_str_def)

lemma email_header_rejected:
  "fst (notify_email alerting_config
          (healthy_world \<lparr> message_response :=
             Some ''Header values may not contain linefeed or carriage return characters'' \<rparr>)
          ''NGINX Health Alert'' ''down'') =
     [Log ERROR ''Email error: Header values may not contain linefeed or carriage return characters'']"
  by (simp add: notify_email_eq alerting_values truthy_str_def)

subsection \<open>The inspector\<close>

lemma problem_pods_without_status:
  "problem_pods_of (filter (\<lambda>p. status_container_statuses p \<noteq> None) items) = problem_pods_of items"
  unfolding problem_pods_of_eq
  by (induction items) (simp_all add: unready_count_def)

text \<open>
  Claim C9, as amended. When the API call returns, the inspector returns, in the order of
  the response, the name of each pod once for every container of it that reports not
  ready. So a name is in the result exactly when a pod of that name has a container that
  is not ready, the names stand in the order of the response (the result with repeated
  neighbours merged is the list of the unhealthy pods' names, merged the same way), and
  pods without container statuses add nothing.
\<close>

theorem unhealthy_names_per_container:
  "pods_response w = Inr items \<longrightarrow>
     get_unhealthy_pods cfg w =
       ([List_namespaced_pod (NAMESPACE cfg) ''app.kubernetes.io/component=controller''],
        Inr (problem_pods_of items))
     \<and> problem_pods_of items = concat (map (\<lambda>p. replicate (unready_count p) (metadata_name p)) items)
     \<and> set (problem_pods_of items) = metadata_name ` {p \<in> set items. unhealthy_pod p}
     \<and> remdups_adj (problem_pods_of items) = remdups_adj (map metadata_name (filter unhealthy_pod items))
     \<and> problem_pods_of (filter (\<lambda>p. status_container_statuses p \<noteq> None) items) = problem_pods_of items"
proof (intro impI conjI)
  assume "pods_response w = Inr items"
  then show "get_unhealthy_pods cfg w =
       ([List_namespaced_pod (NAMESPACE cfg) ''app.kubernetes.io/component=controller''],
        Inr (problem_pods_of items))"
    by (simp add: get_unhealthy_pods_def)
qed (rule problem_pods_of_eq problem_pods_set problem_pods_order problem_pods_without_status)+

lemma sample_pods:
  "unready_count ready_pod = 0" "unready_count unready_pod = 2" "unready_count pending_pod = 0"
  "unhealthy_pod unready_pod" "\<not> unhealthy_pod ready_pod" "\<not> unhealthy_pod pending_pod"
  "metadata_name unready_pod = ''ctl-b''"
  by (simp_all add: unready_count_def unhealthy_pod_def sample_defs)

text \<open>Three pods: all ready, two of three containers not ready, no statuses.\<close>

theorem unhealthy_names_witness:
  "pods_response unhealthy_world = Inr [ready_pod, unready_pod, pending_pod]
   \<and> get_unhealthy_pods default_config unhealthy_world =
       ([List_namespaced_pod ''ingress-nginx'' ''app.kubernetes.io/component=controller''],
        Inr [''ctl-b'', ''ctl-b''])
   \<and> remdups_adj (problem_pods_of [ready_pod, unready_pod, pending_pod]) = [''ctl-b'']"
proof -
  have r: "pods_response unhealthy_world = Inr [ready_pod, unready_pod, pending_pod]"
    by (simp add: sample_defs)
  have v: "NAMESPACE default_config = ''ingress-nginx''"
    by (simp add: sample_defs)
  have two: "replicate 2 x = [x, x]" for x :: string
    by (simp add: numeral_2_eq_2)
  from unhealthy_names_per_container [of unhealthy_world "[ready_pod, unready_pod, pending_pod]" default_config] r
  show ?thesis
    by (simp add: sample_pods v two)
qed

text \<open>
  The claim as stated: the result is the list of the unhealthy pods' names. A pod with
  two containers that are not ready is named twice.
\<close>

theorem unhealthy_names_not_a_subset:
  "pods_response unhealthy_world = Inr [ready_pod, unready_pod, pending_pod]
   \<and> snd (get_unhealthy_pods default_config unhealthy_world) = Inr [''ctl-b'', ''ctl-b'']
   \<and> map metadata_name (filter unhealthy_pod [ready_pod, unready_pod, pending_pod]) = [''ctl-b'']
   \<and> snd (get_unhealthy_pods default_config unhealthy_world)
       \<noteq> Inr (map metadata_name (filter unhealthy_pod [ready_pod, unready_pod, pending_pod]))"
proof -
  have r: "pods_response unhealthy_world = Inr [ready_pod, unready_pod, pending_pod]"
    by (simp add: sample_defs)
  have two: "replicate 2 x = [x, x]" for x :: string
    by (simp add: numeral_2_eq_2)
  have g: "snd (get_unhealthy_pods default_config unhealthy_world) = Inr [''ctl-b'', ''ctl-b'']"
    by (simp add: get_unhealthy_pods_def r problem_pods_of_eq sample_pods two)
  have m: "map metadata_name (filter unhealthy_pod [ready_pod, unready_pod, pending_pod]) = [''ctl-b'']"
    by (simp add: sample_pods)
  show ?thesis
    using r g m by simp
qed


subsection \<open>Remediation\<close>

text \<open>
  Claim C5, as amended. With the dry-run flag set, \<open>restart_nginx_controller\<close> logs the
  restart message and the line that the restart is skipped, and returns: it sends no
  patch and no notification. An unhealthy poll that brings the counter to the threshold
  then ends with the counter at 0.
\<close>

theorem dry_run_skips_patch_and_alert:
  "restart_nginx_controller cfg w True =
     ([Log INFO (restart_msg cfg), Log INFO ''[Dry Run] Skipping actual restart''], Inr ())
   \<and> (pods_response w = Inr items \<and> problem_pods_of items \<noteq> [] \<and> FAILURE_THRESHOLD cfg \<le> failure_count + 1 \<longrightarrow>
        loop_iteration cfg True w failure_count =
          ([Print ''Next Lopp'',
            List_namespaced_pod (NAMESPACE cfg) ''app.kubernetes.io/component=controller'',
            Log WARNING (''Detected unhealthy pods: '' @ str_list (problem_pods_of items)
                           @ '' (failure #'' @ str_int (failure_count + 1) @ '')''),
            Log INFO (restart_msg cfg),
            Log INFO ''[Dry Run] Skipping actual restart'',
            Time_sleep (CHECK_EVERY cfg)], 0))"
  by (simp add: iteration_remediate restart_eq)

lemma sample_unhealthy:
  "pods_response unhealthy_world = Inr [ready_pod, unready_pod, pending_pod]"
  "pods_response patch_fails_world = Inr [ready_pod, unready_pod, pending_pod]"
  "problem_pods_of [ready_pod, unready_pod, pending_pod] = [''ctl-b'', ''ctl-b'']"
  by (simp_all add: problem_pods_of_eq sample_pods numeral_2_eq_2) (simp_all add: sample_defs)

lemma sample_texts:
  "str_int 3 = ''3''" "str_int 1 = ''1''" "str_int (0 + 1) = ''1''"
  "str_list [''ctl-b'', ''ctl-b''] = [CHR ''['', CHR 39] @ ''ctl-b'' @ [CHR 39] @ '', '' @ [CHR 39] @ ''ctl-b'' @ [CHR 39] @ '']''"
  by (simp_all add: str_int_def str_nat.simps str_list_def)

lemma default_values:
  "NAMESPACE default_config = ''ingress-nginx''"
  "DEPLOYMENT_NAME default_config = ''ingress-nginx-controller''"
  "CHECK_EVERY default_config = 60"
  "FAILURE_THRESHOLD default_config = 3"
  "restart_msg default_config =
     ''[Self-Heal] Restarting deployment ingress-nginx-controller in namespace ingress-nginx''"
  by (simp_all add: restart_msg_def sample_defs)

text \<open>The third unhealthy poll in a row, threshold 3, dry run.\<close>

theorem dry_run_witness:
  "pods_response unhealthy_world = Inr [ready_pod, unready_pod, pending_pod]
   \<and> problem_pods_of [ready_pod, unready_pod, pending_pod] \<noteq> []
   \<and> FAILURE_THRESHOLD default_config \<le> 2 + 1
   \<and> loop_iteration default_config True unhealthy_world 2 =
       ([Print ''Next Lopp'',
         List_namespaced_pod ''ingress-nginx'' ''app.kubernetes.io/component=controller'',
         Log WARNING (''Detected unhealthy pods: '' @ str_list [''ctl-b'', ''ctl-b''] @ '' (failure #3)''),
         Log INFO ''[Self-Heal] Restarting deployment ingress-nginx-controller in namespace ingress-nginx'',
         Log INFO ''[Dry Run] Skipping actual restart'',
         Time_sleep 60], 0)"
proof -
  have h: "pods_response unhealthy_world = Inr [ready_pod, unready_pod, pending_pod]
      \<and> problem_pods_of [ready_pod, unready_pod, pending_pod] \<noteq> []
      \<and> FAILURE_THRESHOLD default_config \<le> 2 + 1"
    by (simp add: sample_unhealthy default_values)
  with dry_run_skips_patch_and_alert
    [of default_config unhealthy_world "[ready_pod, unready_pod, pending_pod]" 2]
  have "loop_iteration default_config True unhealthy_world 2 =
          ([Print ''Next Lopp'',
            List_namespaced_pod (NAMESPACE default_config) ''app.kubernetes.io/component=controller'',
            Log WARNING (''Detected unhealthy pods: '' @ str_list (problem_pods_of [ready_pod, unready_pod, pending_pod])
                           @ '' (failure #'' @ str_int (2 + 1) @ '')''),
            Log INFO (restart_msg default_config),
            Log INFO ''[Dry Run] Skipping actual restart'',
            Time_sleep (CHECK_EVERY default_config)], 0)"
    by blast
  then show ?thesis
    using h by (simp add: sample_unhealthy default_values sample_texts)
qed

text \<open>
  With all three channels configured and every call succeeding, the iteration that
  remediates sends three notifications when the patch is real and none in a dry run.
\<close>

lemma remediation_sends:
  "filter is_send (fst (loop_iteration alerting_config True unhealthy_world 2)) = []
   \<and> filter is_send (fst (loop_iteration alerting_config False unhealthy_world 2)) =
       [Requests_post (Some ''https://hooks.slack.test/T0'')
          (JObj [(''text'', JStr (''Remediation triggered: '' @ restart_msg alerting_config))]),
        Smtp_send_message ''localhost''
          \<lparr> msg_content = ''Remediation triggered: '' @ restart_msg alerting_config,
            msg_Subject = ''NGINX Health Alert'',
            msg_From = Some ''monitor@cluster.test'', msg_To = Some ''oncall@cluster.test'' \<rparr>,
        Requests_post (Some ''https://events.pagerduty.com/v2/enqueue'')
          (JObj [(''routing_key'', JStr ''R0''),
                 (''event_action'', JStr ''trigger''),
                 (''payload'', JObj [(''summary'', JStr (''Remediation triggered: '' @ restart_msg alerting_config)),
                                     (''severity'', JStr ''critical''),
                                     (''source'', JStr ''nginx-ingress-monitor'')])])]
   \<and> snd (loop_iteration alerting_config True unhealthy_world 2) = 0
   \<and> snd (loop_iteration alerting_config False unhealthy_world 2) = 0"
proof -
  have t: "FAILURE_THRESHOLD alerting_config \<le> 2 + 1"
    by (simp add: sample_defs)
  have c: "SLACK_HOOK_URL alerting_config = Some ''https://hooks.slack.test/T0''"
    "PAGERDUTY_ROUTING_KEY alerting_config = Some ''R0''"
    "EMAIL_FROM alerting_config = Some ''monitor@cluster.test''"
    "EMAIL_TO alerting_config = Some ''oncall@cluster.test''"
    "SMTP_HOST alerting_config = ''localhost''"
    by (simp_all add: sample_defs)
  have w: "patch_response unhealthy_world = Inr ()" "slack_response unhealthy_world = Inr 200"
    "message_response unhealthy_world = None" "smtp_response unhealthy_world = Inr []"
    "pagerduty_response unhealthy_world = Inr 202"
    by (simp_all add: sample_defs)
  have it: "loop_iteration alerting_config d unhealthy_world 2 =
     ([Print ''Next Lopp'',
       List_namespaced_pod (NAMESPACE alerting_config) ''app.kubernetes.io/component=controller'',
       Log WARNING (''Detected unhealthy pods: '' @ str_list (problem_pods_of [ready_pod, unready_pod, pending_pod])
                      @ '' (failure #'' @ str_int (2 + 1) @ '')'')]
        @ fst (restart_nginx_controller alerting_config unhealthy_world d)
        @ [Time_sleep (CHECK_EVERY alerting_config)], 0)" for d
    using t by (intro iteration_remediate) (simp_all add: sample_unhealthy)
  show ?thesis
    unfolding it
    by (simp add: restart_eq notify_all_channels_eq notify_slack_eq notify_email_eq
        notify_pagerduty_eq no_send_simps c w truthy_str_def)
qed

text \<open>
  The claim as stated treats a dry run as a success for the notification: a successful
  restart notifies every channel, the dry run notifies none.
\<close>

theorem dry_run_sends_no_alert:
  "filter is_send (fst (loop_iteration alerting_config True unhealthy_world 2)) = []
   \<and> filter is_send (fst (loop_iteration alerting_config False unhealthy_world 2)) =
       [Requests_post (Some ''https://hooks.slack.test/T0'')
          (JObj [(''text'', JStr (''Remediation triggered: '' @ restart_msg alerting_config))]),
        Smtp_send_message ''localhost''
          \<lparr> msg_content = ''Remediation triggered: '' @ restart_msg alerting_config,
            msg_Subject = ''NGINX Health Alert'',
            msg_From = Some ''monitor@cluster.test'', msg_To = Some ''oncall@cluster.test'' \<rparr>,
        Requests_post (Some ''https://events.pagerduty.com/v2/enqueue'')
          (JObj [(''routing_key'', JStr ''R0''),
                 (''event_action'', JStr ''trigger''),
                 (''payload'', JObj [(''summary'', JStr (''Remediation triggered: '' @ restart_msg alerting_config)),
                                     (''severity'', JStr ''critical''),
                                     (''source'', JStr ''nginx-ingress-monitor'')])])]
   \<and> snd (loop_iteration alerting_config True unhealthy_world 2) = 0
   \<and> snd (loop_iteration alerting_config False unhealthy_world 2) = 0"
  by (rule remediation_sends)




subsection \<open>The counter over a run\<close>

lemma count_after_snoc: "count_after fc (steps @ [x]) = snd x"
  by (simp add: count_after_def)

lemma count_after_step:
  "count_after fc (while_True cfg d fc (ws @ [w])) =
     snd (loop_iteration cfg d w (count_after fc (while_True cfg d fc ws)))"
  by (simp add: while_True_snoc count_after_snoc)

lemma history_snoc:
  "history cfg d (ws @ [w]) =
     history cfg d ws
       @ [(classify cfg w,
           remediation_fired cfg (fst (loop_iteration cfg d w (count_after 0 (while_True cfg d 0 ws)))))]"
  by (simp add: history_def while_True_snoc while_True_length split: prod.splits)

lemma trailing_run_snoc:
  "trailing_run (h @ [(oc, fired)]) =
     (if oc = InspectionError then trailing_run h
      else if oc = Unhealthy \<and> \<not> fired then Suc (trailing_run h) else 0)"
  by (simp add: trailing_run_def)

lemma unhealthy_streak_snoc:
  "unhealthy_streak (ocs @ [oc]) =
     (case oc of InspectionError \<Rightarrow> unhealthy_streak ocs
      | Unhealthy \<Rightarrow> Suc (unhealthy_streak ocs) | Healthy \<Rightarrow> 0)"
  by (cases oc) (simp_all add: unhealthy_streak_def)

lemma count_is_trailing_run:
  "count_after 0 (while_True cfg d 0 ws) = int (trailing_run (history cfg d ws))"
proof (induction ws rule: rev_induct)
  case Nil
  show ?case by (simp add: count_after_def history_def trailing_run_def)
next
  case (snoc w ws)
  let ?c = "count_after 0 (while_True cfg d 0 ws)"
  show ?case
  proof (cases "classify cfg w")
    case Healthy
    then show ?thesis
      by (simp add: count_after_step iteration_count history_snoc trailing_run_snoc)
  next
    case InspectionError
    then show ?thesis
      using snoc.IH by (simp add: count_after_step iteration_count history_snoc trailing_run_snoc)
  next
    case Unhealthy
    then show ?thesis
      using snoc.IH
      by (simp add: count_after_step iteration_count history_snoc trailing_run_snoc iteration_fired)
  qed
qed

lemma count_bounds:
  assumes "0 < FAILURE_THRESHOLD cfg"
  shows "0 \<le> count_after 0 (while_True cfg d 0 ws) \<and> count_after 0 (while_True cfg d 0 ws) < FAILURE_THRESHOLD cfg"
proof (induction ws rule: rev_induct)
  case Nil
  show ?case using assms by (simp add: count_after_def)
next
  case (snoc w ws)
  then show ?case
    using assms by (cases "classify cfg w") (simp_all add: count_after_step iteration_count)
qed

lemma count_le_streak:
  "0 \<le> count_after 0 (while_True cfg d 0 ws)
   \<and> count_after 0 (while_True cfg d 0 ws) \<le> int (unhealthy_streak (map (classify cfg) ws))"
proof (induction ws rule: rev_induct)
  case Nil
  show ?case by (simp add: count_after_def unhealthy_streak_def)
next
  case (snoc w ws)
  then show ?case
    by (cases "classify cfg w") (simp_all add: count_after_step iteration_count unhealthy_streak_snoc)
qed

lemma fired_machine:
  "map (\<lambda>(es, fc). remediation_fired cfg es) (while_True cfg d fc ws) =
     map fst (machine (FAILURE_THRESHOLD cfg) fc (map (classify cfg) ws))"
proof -
  have "map fst (map (\<lambda>(es, fc). (remediation_fired cfg es, fc)) (while_True cfg d fc ws)) =
      map fst (machine (FAILURE_THRESHOLD cfg) fc (map (classify cfg) ws))"
    by (simp only: while_True_machine)
  then show ?thesis
    by (simp add: case_prod_unfold comp_def)
qed

lemma counts_machine:
  "map snd (while_True cfg d fc ws) =
     map snd (machine (FAILURE_THRESHOLD cfg) fc (map (classify cfg) ws))"
proof -
  have "map snd (map (\<lambda>(es, fc). (remediation_fired cfg es, fc)) (while_True cfg d fc ws)) =
      map snd (machine (FAILURE_THRESHOLD cfg) fc (map (classify cfg) ws))"
    by (simp only: while_True_machine)
  then show ?thesis
    by (simp add: case_prod_unfold comp_def)
qed

lemma count_after_machine:
  "count_after fc (while_True cfg d fc ws) =
     last (fc # map snd (machine (FAILURE_THRESHOLD cfg) fc (map (classify cfg) ws)))"
proof -
  have "count_after fc steps = last (fc # map snd steps)" for steps :: "(event list \<times> int) list"
    by (simp add: count_after_def last_map)
  then show ?thesis
    by (simp only: counts_machine)
qed

lemma history_machine:
  "history cfg d ws =
     zip (map (classify cfg) ws) (map fst (machine (FAILURE_THRESHOLD cfg) 0 (map (classify cfg) ws)))"
  by (simp only: history_def fired_machine)

lemma sample_classify:
  "classify cfg healthy_world = Healthy" "classify cfg unhealthy_world = Unhealthy"
  "classify cfg error_world = InspectionError" "classify cfg patch_fails_world = Unhealthy"
  "classify cfg unreachable_world = Unhealthy"
  by (simp_all add: classify_cases problem_pods_of_eq sample_pods)
    (simp_all add: sample_defs problem_pods_of_eq unready_count_def)

text \<open>
  Claim C1. After every sequence of polls the counter is the length of the trailing run of
  the history: the unhealthy outcomes since the last healthy outcome or the last
  remediation, with the iterations whose inspection failed passed over. An inspection
  failure leaves the counter as it is, remediation fires on an unhealthy poll that brings
  the counter to the threshold, and the counter is 0 after an iteration that remediated.
\<close>

theorem failure_count_is_trailing_run:
  "count_after 0 (while_True cfg dry_run 0 ws) = int (trailing_run (history cfg dry_run ws))
   \<and> (classify cfg w = InspectionError \<longrightarrow>
        count_after 0 (while_True cfg dry_run 0 (ws @ [w])) = count_after 0 (while_True cfg dry_run 0 ws))
   \<and> (remediation_fired cfg (fst (loop_iteration cfg dry_run w (count_after 0 (while_True cfg dry_run 0 ws)))) \<longleftrightarrow>
        classify cfg w = Unhealthy
        \<and> FAILURE_THRESHOLD cfg \<le> count_after 0 (while_True cfg dry_run 0 ws) + 1)
   \<and> (remediation_fired cfg (fst (loop_iteration cfg dry_run w (count_after 0 (while_True cfg dry_run 0 ws)))) \<longrightarrow>
        count_after 0 (while_True cfg dry_run 0 (ws @ [w])) = 0)"
proof (intro conjI impI)
  show "count_after 0 (while_True cfg dry_run 0 ws) = int (trailing_run (history cfg dry_run ws))"
    by (rule count_is_trailing_run)
  show "remediation_fired cfg (fst (loop_iteration cfg dry_run w (count_after 0 (while_True cfg dry_run 0 ws)))) \<longleftrightarrow>
        classify cfg w = Unhealthy
        \<and> FAILURE_THRESHOLD cfg \<le> count_after 0 (while_True cfg dry_run 0 ws) + 1"
    by (rule iteration_fired)
next
  assume "classify cfg w = InspectionError"
  then show "count_after 0 (while_True cfg dry_run 0 (ws @ [w])) = count_after 0 (while_True cfg dry_run 0 ws)"
    by (simp add: count_after_step iteration_count)
next
  assume "remediation_fired cfg (fst (loop_iteration cfg dry_run w (count_after 0 (while_True cfg dry_run 0 ws))))"
  then have "classify cfg w = Unhealthy
      \<and> FAILURE_THRESHOLD cfg \<le> count_after 0 (while_True cfg dry_run 0 ws) + 1"
    by (simp add: iteration_fired)
  then show "count_after 0 (while_True cfg dry_run 0 (ws @ [w])) = 0"
    by (simp add: count_after_step iteration_count)
qed

text \<open>Threshold 3: unhealthy, inspection error, unhealthy; then an error or a third unhealthy poll.\<close>

theorem failure_count_witness:
  "count_after 0 (while_True default_config False 0 [unhealthy_world, error_world, unhealthy_world]) = 2
   \<and> history default_config False [unhealthy_world, error_world, unhealthy_world] =
       [(Unhealthy, False), (InspectionError, False), (Unhealthy, False)]
   \<and> trailing_run [(Unhealthy, False), (InspectionError, False), (Unhealthy, False)] = 2
   \<and> classify default_config error_world = InspectionError
   \<and> count_after 0 (while_True default_config False 0 [unhealthy_world, error_world, unhealthy_world, error_world]) = 2
   \<and> remediation_fired default_config (fst (loop_iteration default_config False unhealthy_world 2))
   \<and> count_after 0 (while_True default_config False 0 [unhealthy_world, error_world, unhealthy_world, unhealthy_world]) = 0"
proof -
  let ?ws = "[unhealthy_world, error_world, unhealthy_world]"
  have h: "history default_config False ?ws = [(Unhealthy, False), (InspectionError, False), (Unhealthy, False)]"
    by (simp add: history_machine sample_classify default_values)
  have t: "trailing_run [(Unhealthy, False), (InspectionError, False), (Unhealthy, False)] = 2"
    by (simp add: trailing_run_def)
  have e: "classify default_config error_world = InspectionError"
    by (rule sample_classify)
  note th = failure_count_is_trailing_run [of default_config False ?ws]
  from th [of error_world]
  have "count_after 0 (while_True default_config False 0 ?ws) = int (trailing_run (history default_config False ?ws))"
    by blast
  then have c: "count_after 0 (while_True default_config False 0 ?ws) = 2"
    by (simp only: h t)
  from th [of error_world] e
  have "count_after 0 (while_True default_config False 0 (?ws @ [error_world]))
      = count_after 0 (while_True default_config False 0 ?ws)"
    by blast
  then have c4: "count_after 0 (while_True default_config False 0 (?ws @ [error_world])) = 2"
    by (simp only: c)
  have "classify default_config unhealthy_world = Unhealthy
      \<and> FAILURE_THRESHOLD default_config \<le> count_after 0 (while_True default_config False 0 ?ws) + 1"
    by (simp only: c) (simp add: sample_classify default_values)
  with th [of unhealthy_world]
  have f': "remediation_fired default_config
      (fst (loop_iteration default_config False unhealthy_world (count_after 0 (while_True default_config False 0 ?ws))))"
    by blast
  then have f: "remediation_fired default_config (fst (loop_iteration default_config False unhealthy_world 2))"
    by (simp only: c)
  from th [of unhealthy_world] f'
  have r: "count_after 0 (while_True default_config False 0 (?ws @ [unhealthy_world])) = 0"
    by blast
  from c h t e c4 f r show ?thesis
    by (simp del: while_True.simps)
qed

text \<open>
  With a threshold of 0 or less every unhealthy poll remediates, and the counter is 0 at
  the top of every iteration.
\<close>

lemma nonpositive_threshold:
  assumes "FAILURE_THRESHOLD cfg \<le> 0"
  shows "count_after 0 (while_True cfg d 0 ws) = 0
    \<and> (remediation_fired cfg (fst (loop_iteration cfg d w (count_after 0 (while_True cfg d 0 ws)))) \<longleftrightarrow>
         classify cfg w = Unhealthy)"
proof -
  have c: "count_after 0 (while_True cfg d 0 ws) = 0"
  proof (induction ws rule: rev_induct)
    case Nil
    show ?case by (simp add: count_after_def)
  next
    case (snoc v vs)
    then show ?case
      using assms by (cases "classify cfg v") (simp_all add: count_after_step iteration_count)
  qed
  show ?thesis
    using assms by (simp add: c iteration_fired)
qed

text \<open>
  Claim C2, as amended. For a positive threshold, at the top of every iteration the counter
  is at least 0 and below the threshold; an unhealthy poll adds exactly one to it, unless
  that makes it equal to the threshold: then, and only then, remediation fires and the
  counter is 0 after the iteration.
\<close>

theorem counter_below_positive_threshold:
  "0 < FAILURE_THRESHOLD cfg \<longrightarrow>
     0 \<le> count_after 0 (while_True cfg dry_run 0 ws)
     \<and> count_after 0 (while_True cfg dry_run 0 ws) < FAILURE_THRESHOLD cfg
     \<and> (classify cfg w = Unhealthy \<longrightarrow>
          (if count_after 0 (while_True cfg dry_run 0 ws) + 1 = FAILURE_THRESHOLD cfg
           then remediation_fired cfg (fst (loop_iteration cfg dry_run w (count_after 0 (while_True cfg dry_run 0 ws))))
                \<and> count_after 0 (while_True cfg dry_run 0 (ws @ [w])) = 0
           else \<not> remediation_fired cfg (fst (loop_iteration cfg dry_run w (count_after 0 (while_True cfg dry_run 0 ws))))
                \<and> count_after 0 (while_True cfg dry_run 0 (ws @ [w])) = count_after 0 (while_True cfg dry_run 0 ws) + 1))
     \<and> (remediation_fired cfg (fst (loop_iteration cfg dry_run w (count_after 0 (while_True cfg dry_run 0 ws)))) \<longleftrightarrow>
          classify cfg w = Unhealthy \<and> count_after 0 (while_True cfg dry_run 0 ws) + 1 = FAILURE_THRESHOLD cfg)"
proof (intro impI)
  let ?c = "count_after 0 (while_True cfg dry_run 0 ws)"
  assume pos: "0 < FAILURE_THRESHOLD cfg"
  then have b: "0 \<le> ?c \<and> ?c < FAILURE_THRESHOLD cfg"
    by (rule count_bounds)
  then have eq: "FAILURE_THRESHOLD cfg \<le> ?c + 1 \<longleftrightarrow> ?c + 1 = FAILURE_THRESHOLD cfg"
    by arith
  have step: "count_after 0 (while_True cfg dry_run 0 (ws @ [w])) = snd (loop_iteration cfg dry_run w ?c)"
    by (rule count_after_step)
  have fired: "remediation_fired cfg (fst (loop_iteration cfg dry_run w ?c)) \<longleftrightarrow>
      classify cfg w = Unhealthy \<and> ?c + 1 = FAILURE_THRESHOLD cfg"
    by (simp only: iteration_fired eq)
  have unhealthy: "classify cfg w = Unhealthy \<longrightarrow>
      (if ?c + 1 = FAILURE_THRESHOLD cfg
       then remediation_fired cfg (fst (loop_iteration cfg dry_run w ?c))
            \<and> count_after 0 (while_True cfg dry_run 0 (ws @ [w])) = 0
       else \<not> remediation_fired cfg (fst (loop_iteration cfg dry_run w ?c))
            \<and> count_after 0 (while_True cfg dry_run 0 (ws @ [w])) = ?c + 1)"
    using eq by (simp add: step fired iteration_count)
  from b unhealthy fired
  show "0 \<le> ?c \<and> ?c < FAILURE_THRESHOLD cfg
     \<and> (classify cfg w = Unhealthy \<longrightarrow>
          (if ?c + 1 = FAILURE_THRESHOLD cfg
           then remediation_fired cfg (fst (loop_iteration cfg dry_run w ?c))
                \<and> count_after 0 (while_True cfg dry_run 0 (ws @ [w])) = 0
           else \<not> remediation_fired cfg (fst (loop_iteration cfg dry_run w ?c))
                \<and> count_after 0 (while_True cfg dry_run 0 (ws @ [w])) = ?c + 1))
     \<and> (remediation_fired cfg (fst (loop_iteration cfg dry_run w ?c)) \<longleftrightarrow>
          classify cfg w = Unhealthy \<and> ?c + 1 = FAILURE_THRESHOLD cfg)"
    by blast
qed

lemma sample_counts:
  "count_after 0 (while_True cfg d 0 [unhealthy_world, unhealthy_world])
     = (if FAILURE_THRESHOLD cfg \<le> 1 then 0 else if FAILURE_THRESHOLD cfg \<le> 2 then 0 else 2)"
  by (simp only: count_after_machine) (simp add: sample_classify)

text \<open>The default threshold 3 after two unhealthy polls, and the third.\<close>

theorem counter_below_threshold_witness:
  "0 < FAILURE_THRESHOLD default_config
   \<and> count_after 0 (while_True default_config False 0 [unhealthy_world, unhealthy_world]) = 2
   \<and> FAILURE_THRESHOLD default_config = 3
   \<and> classify default_config unhealthy_world = Unhealthy
   \<and> remediation_fired default_config (fst (loop_iteration default_config False unhealthy_world 2))
   \<and> count_after 0 (while_True default_config False 0 [unhealthy_world, unhealthy_world, unhealthy_world]) = 0"
proof -
  let ?ws = "[unhealthy_world, unhealthy_world]"
  have p: "0 < FAILURE_THRESHOLD default_config" and t: "FAILURE_THRESHOLD default_config = 3"
    by (simp_all add: default_values)
  have c: "count_after 0 (while_True default_config False 0 ?ws) = 2"
    by (simp add: sample_counts t del: while_True.simps)
  have u: "classify default_config unhealthy_world = Unhealthy"
    by (rule sample_classify)
  from counter_below_positive_threshold [of default_config False ?ws unhealthy_world] p u
  have "if count_after 0 (while_True default_config False 0 ?ws) + 1 = FAILURE_THRESHOLD default_config
        then remediation_fired default_config
               (fst (loop_iteration default_config False unhealthy_world (count_after 0 (while_True default_config False 0 ?ws))))
             \<and> count_after 0 (while_True default_config False 0 (?ws @ [unhealthy_world])) = 0
        else \<not> remediation_fired default_config
               (fst (loop_iteration default_config False unhealthy_world (count_after 0 (while_True default_config False 0 ?ws))))
             \<and> count_after 0 (while_True default_config False 0 (?ws @ [unhealthy_world]))
                = count_after 0 (while_True default_config False 0 ?ws) + 1"
    by blast
  then have "remediation_fired default_config (fst (loop_iteration default_config False unhealthy_world 2))
      \<and> count_after 0 (while_True default_config False 0 (?ws @ [unhealthy_world])) = 0"
    by (simp add: c t del: while_True.simps)
  with p c t u show ?thesis
    by (simp del: while_True.simps)
qed

text \<open>
  The claim as stated has no condition on the threshold. With \<open>FAILURE_LIMIT=0\<close> the
  counter 0 at the top of the first iteration is not below the threshold, and the first
  unhealthy poll remediates with the counter at 1, not at the threshold.
\<close>

theorem zero_threshold_breaks_invariant:
  "FAILURE_THRESHOLD zero_limit_config = 0
   \<and> count_after 0 (while_True zero_limit_config False 0 []) = 0
   \<and> \<not> count_after 0 (while_True zero_limit_config False 0 []) < FAILURE_THRESHOLD zero_limit_config
   \<and> remediation_fired zero_limit_config (fst (loop_iteration zero_limit_config False unhealthy_world 0))
   \<and> (0::int) + 1 \<noteq> FAILURE_THRESHOLD zero_limit_config"
proof -
  have t: "FAILURE_THRESHOLD zero_limit_config = 0"
    by (simp add: sample_defs)
  have f: "remediation_fired zero_limit_config (fst (loop_iteration zero_limit_config False unhealthy_world 0))"
    by (simp add: iteration_fired sample_classify t)
  show ?thesis
    using f by (simp add: t count_after_def)
qed

lemma fired_streak:
  assumes "remediation_fired cfg (fst (loop_iteration cfg d w (count_after 0 (while_True cfg d 0 ws))))"
  shows "classify cfg w = Unhealthy
    \<and> FAILURE_THRESHOLD cfg \<le> int (unhealthy_streak (map (classify cfg) (ws @ [w])))"
proof -
  let ?c = "count_after 0 (while_True cfg d 0 ws)"
  from assms have f: "classify cfg w = Unhealthy \<and> FAILURE_THRESHOLD cfg \<le> ?c + 1"
    by (simp add: iteration_fired)
  have "?c \<le> int (unhealthy_streak (map (classify cfg) ws))"
    using count_le_streak [of cfg d ws] by simp
  with f show ?thesis
    by (simp add: unhealthy_streak_snoc)
qed

lemma streak_without_errors:
  "list_all (\<lambda>oc. oc \<noteq> InspectionError) ocs \<Longrightarrow> unhealthy_streak ocs = consecutive_unhealthy ocs"
  by (simp add: unhealthy_streak_def consecutive_unhealthy_def list_all_iff)

text \<open>
  Claim C3, as amended. With threshold 3 and the outcomes unhealthy, unhealthy, healthy,
  unhealthy, unhealthy, remediation fires in no iteration (the counter goes 1, 2, 0, 1, 2).
  A healthy poll sets the counter to 0 whatever it was. When remediation fires, the poll is
  unhealthy and it ends a run of at least threshold-many unhealthy polls with no healthy
  poll among them, where polls whose inspection failed are passed over: they neither
  count nor reset. When no inspection failed, these are the last threshold-many polls,
  all unhealthy.
\<close>

theorem healthy_poll_resets_progress:
  "(FAILURE_THRESHOLD cfg = 3
      \<and> map (classify cfg) ws = [Unhealthy, Unhealthy, Healthy, Unhealthy, Unhealthy] \<longrightarrow>
      map (\<lambda>(es, fc). remediation_fired cfg es) (while_True cfg dry_run 0 ws)
        = [False, False, False, False, False]
      \<and> map snd (while_True cfg dry_run 0 ws) = [1, 2, 0, 1, 2])
   \<and> (classify cfg w = Healthy \<longrightarrow> count_after 0 (while_True cfg dry_run 0 (ws @ [w])) = 0)
   \<and> (remediation_fired cfg (fst (loop_iteration cfg dry_run w (count_after 0 (while_True cfg dry_run 0 ws)))) \<longrightarrow>
        classify cfg w = Unhealthy
        \<and> FAILURE_THRESHOLD cfg \<le> int (unhealthy_streak (map (classify cfg) (ws @ [w]))))
   \<and> (remediation_fired cfg (fst (loop_iteration cfg dry_run w (count_after 0 (while_True cfg dry_run 0 ws))))
        \<and> list_all (\<lambda>oc. oc \<noteq> InspectionError) (map (classify cfg) (ws @ [w])) \<longrightarrow>
        FAILURE_THRESHOLD cfg \<le> int (consecutive_unhealthy (map (classify cfg) (ws @ [w]))))"
proof (intro conjI impI)
  assume a: "FAILURE_THRESHOLD cfg = 3
      \<and> map (classify cfg) ws = [Unhealthy, Unhealthy, Healthy, Unhealthy, Unhealthy]"
  then have t: "FAILURE_THRESHOLD cfg = 3"
    and m: "map (classify cfg) ws = [Unhealthy, Unhealthy, Healthy, Unhealthy, Unhealthy]"
    by simp_all
  show "map (\<lambda>(es, fc). remediation_fired cfg es) (while_True cfg dry_run 0 ws)
        = [False, False, False, False, False]"
    by (simp only: fired_machine t m) simp
  show "map snd (while_True cfg dry_run 0 ws) = [1, 2, 0, 1, 2]"
    by (simp only: counts_machine t m) simp
next
  assume "classify cfg w = Healthy"
  then show "count_after 0 (while_True cfg dry_run 0 (ws @ [w])) = 0"
    by (simp add: count_after_step iteration_count)
next
  assume "remediation_fired cfg (fst (loop_iteration cfg dry_run w (count_after 0 (while_True cfg dry_run 0 ws))))"
  then have f: "classify cfg w = Unhealthy
      \<and> FAILURE_THRESHOLD cfg \<le> int (unhealthy_streak (map (classify cfg) (ws @ [w])))"
    by (rule fired_streak)
  from f show "classify cfg w = Unhealthy" by (rule conjunct1)
  from f show "FAILURE_THRESHOLD cfg \<le> int (unhealthy_streak (map (classify cfg) (ws @ [w])))"
    by (rule conjunct2)
next
  assume a: "remediation_fired cfg (fst (loop_iteration cfg dry_run w (count_after 0 (while_True cfg dry_run 0 ws))))
        \<and> list_all (\<lambda>oc. oc \<noteq> InspectionError) (map (classify cfg) (ws @ [w]))"
  then have "FAILURE_THRESHOLD cfg \<le> int (unhealthy_streak (map (classify cfg) (ws @ [w])))"
    using fired_streak [of cfg dry_run w ws] by blast
  moreover from a
  have "unhealthy_streak (map (classify cfg) (ws @ [w])) = consecutive_unhealthy (map (classify cfg) (ws @ [w]))"
    by (intro streak_without_errors) blast
  ultimately show "FAILURE_THRESHOLD cfg \<le> int (consecutive_unhealthy (map (classify cfg) (ws @ [w])))"
    by (simp only:)
qed

text \<open>The sequence of the claim, and three unhealthy polls in a row.\<close>

theorem healthy_poll_resets_witness:
  "FAILURE_THRESHOLD default_config = 3
   \<and> map (classify default_config)
         [unhealthy_world, unhealthy_world, healthy_world, unhealthy_world, unhealthy_world]
       = [Unhealthy, Unhealthy, Healthy, Unhealthy, Unhealthy]
   \<and> map (\<lambda>(es, fc). remediation_fired default_config es)
         (while_True default_config False 0
            [unhealthy_world, unhealthy_world, healthy_world, unhealthy_world, unhealthy_world])
       = [False, False, False, False, False]
   \<and> remediation_fired default_config (fst (loop_iteration default_config False unhealthy_world 2))
   \<and> unhealthy_streak (map (classify default_config) [unhealthy_world, unhealthy_world, unhealthy_world]) = 3
   \<and> list_all (\<lambda>oc. oc \<noteq> InspectionError)
         (map (classify default_config) [unhealthy_world, unhealthy_world, unhealthy_world])
   \<and> consecutive_unhealthy (map (classify default_config) [unhealthy_world, unhealthy_world, unhealthy_world]) = 3"
proof -
  let ?ws = "[unhealthy_world, unhealthy_world, healthy_world, unhealthy_world, unhealthy_world]"
  have t: "FAILURE_THRESHOLD default_config = 3"
    by (simp add: default_values)
  have m: "map (classify default_config) ?ws = [Unhealthy, Unhealthy, Healthy, Unhealthy, Unhealthy]"
    by (simp add: sample_classify)
  from healthy_poll_resets_progress [of default_config ?ws False healthy_world] t m
  have n: "map (\<lambda>(es, fc). remediation_fired default_config es) (while_True default_config False 0 ?ws)
      = [False, False, False, False, False]"
    by blast
  have c: "count_after 0 (while_True default_config False 0 [unhealthy_world, unhealthy_world]) = 2"
    by (simp add: sample_counts t del: while_True.simps)
  have f: "remediation_fired default_config (fst (loop_iteration default_config False unhealthy_world 2))"
    by (simp add: iteration_fired sample_classify t)
  then have f': "remediation_fired default_config (fst (loop_iteration default_config False unhealthy_world
      (count_after 0 (while_True default_config False 0 [unhealthy_world, unhealthy_world]))))"
    by (simp only: c)
  have l: "list_all (\<lambda>oc. oc \<noteq> InspectionError)
      (map (classify default_config) [unhealthy_world, unhealthy_world, unhealthy_world])"
    by (simp add: sample_classify)
  then have l': "list_all (\<lambda>oc. oc \<noteq> InspectionError)
      (map (classify default_config) ([unhealthy_world, unhealthy_world] @ [unhealthy_world]))"
    by simp
  from healthy_poll_resets_progress [of default_config "[unhealthy_world, unhealthy_world]" False unhealthy_world]
    f' l'
  have "FAILURE_THRESHOLD default_config
      \<le> int (consecutive_unhealthy (map (classify default_config) ([unhealthy_world, unhealthy_world] @ [unhealthy_world])))"
    by blast
  moreover have "consecutive_unhealthy (map (classify default_config) [unhealthy_world, unhealthy_world, unhealthy_world]) \<le> 3"
    by (simp add: consecutive_unhealthy_def)
  ultimately have k: "consecutive_unhealthy (map (classify default_config) [unhealthy_world, unhealthy_world, unhealthy_world]) = 3"
    by (simp add: t)
  from f' healthy_poll_resets_progress [of default_config "[unhealthy_world, unhealthy_world]" False unhealthy_world]
  have "FAILURE_THRESHOLD default_config
      \<le> int (unhealthy_streak (map (classify default_config) ([unhealthy_world, unhealthy_world] @ [unhealthy_world])))"
    by blast
  moreover have "unhealthy_streak (map (classify default_config) [unhealthy_world, unhealthy_world, unhealthy_world]) \<le> 3"
    by (simp add: unhealthy_streak_def)
  ultimately have s: "unhealthy_streak (map (classify default_config) [unhealthy_world, unhealthy_world, unhealthy_world]) = 3"
    by (simp add: t)
  from t m n f s l k show ?thesis
    by (intro conjI) blast+
qed

text \<open>
  The claim as stated asks for threshold-many consecutive unhealthy polls. With threshold
  3 the polls unhealthy, inspection error, unhealthy, inspection error, unhealthy
  remediate at the fifth poll, although no two unhealthy polls are consecutive.
\<close>

theorem remediation_across_inspection_errors:
  "FAILURE_THRESHOLD default_config = 3
   \<and> map (classify default_config)
         [unhealthy_world, error_world, unhealthy_world, error_world, unhealthy_world]
       = [Unhealthy, InspectionError, Unhealthy, InspectionError, Unhealthy]
   \<and> snd (monitor_loop default_config False 0
         [unhealthy_world, error_world, unhealthy_world, error_world, unhealthy_world]) = None
   \<and> map (\<lambda>(es, fc). remediation_fired default_config es)
         (fst (monitor_loop default_config False 0
            [unhealthy_world, error_world, unhealthy_world, error_world, unhealthy_world]))
       = [False, False, False, False, True]
   \<and> consecutive_unhealthy [Unhealthy, InspectionError, Unhealthy, InspectionError, Unhealthy] = 1"
proof -
  let ?ws = "[unhealthy_world, error_world, unhealthy_world, error_world, unhealthy_world]"
  have t: "FAILURE_THRESHOLD default_config = 3"
    by (simp add: default_values)
  have m: "map (classify default_config) ?ws
      = [Unhealthy, InspectionError, Unhealthy, InspectionError, Unhealthy]"
    by (simp add: sample_classify)
  have "0 \<le> CHECK_EVERY default_config \<and> CHECK_EVERY default_config \<le> sleep_limit"
    by (simp add: default_values sleep_limit_def)
  then have ml: "monitor_loop default_config False 0 ?ws = (while_True default_config False 0 ?ws, None)"
    by (rule monitor_loop_sleeping)
  have f: "map (\<lambda>(es, fc). remediation_fired default_config es) (while_True default_config False 0 ?ws)
      = [False, False, False, False, True]"
    by (simp only: fired_machine t m) simp
  have c: "consecutive_unhealthy [Unhealthy, InspectionError, Unhealthy, InspectionError, Unhealthy] = 1"
    by (simp add: consecutive_unhealthy_def)
  show ?thesis
    unfolding ml using t m f c by (simp del: while_True.simps)
qed

text \<open>
  Claim C10. Two runs with the same threshold whose polls have the same outcomes, one by
  one, have the same counter after every iteration, whatever their dry-run flags, patch
  results, channel configurations and delivery outcomes are.
\<close>

theorem counter_depends_on_outcomes_only:
  "FAILURE_THRESHOLD cfg = FAILURE_THRESHOLD cfg' \<and> map (classify cfg) ws = map (classify cfg') ws' \<longrightarrow>
     map snd (while_True cfg dry_run 0 ws) = map snd (while_True cfg' dry_run' 0 ws')
     \<and> count_after 0 (while_True cfg dry_run 0 ws) = count_after 0 (while_True cfg' dry_run' 0 ws')"
  by (simp add: counts_machine count_after_machine)

text \<open>
  A real run without channels against a dry run with all channels configured, a failing
  patch and unreachable channels.
\<close>

theorem counter_depends_witness:
  "FAILURE_THRESHOLD default_config = FAILURE_THRESHOLD alerting_config
   \<and> map (classify default_config) [unhealthy_world, error_world, unhealthy_world, unhealthy_world]
       = map (classify alerting_config) [patch_fails_world, error_world, unreachable_world, unhealthy_world]
   \<and> map snd (while_True default_config False 0 [unhealthy_world, error_world, unhealthy_world, unhealthy_world])
       = [1, 1, 2, 0]
   \<and> map snd (while_True alerting_config True 0 [patch_fails_world, error_world, unreachable_world, unhealthy_world])
       = [1, 1, 2, 0]"
proof -
  have t: "FAILURE_THRESHOLD default_config = FAILURE_THRESHOLD alerting_config"
    by (simp add: sample_defs)
  have m: "map (classify default_config) [unhealthy_world, error_world, unhealthy_world, unhealthy_world]
       = map (classify alerting_config) [patch_fails_world, error_world, unreachable_world, unhealthy_world]"
    by (simp add: sample_classify)
  have l: "map snd (while_True default_config False 0 [unhealthy_world, error_world, unhealthy_world, unhealthy_world])
       = [1, 1, 2, 0]"
    by (simp only: counts_machine) (simp add: sample_classify default_values)
  from counter_depends_on_outcomes_only
    [of default_config alerting_config "[unhealthy_world, error_world, unhealthy_world, unhealthy_world]"
      "[patch_fails_world, error_world, unreachable_world, unhealthy_world]" False True] t m
  have "map snd (while_True default_config False 0 [unhealthy_world, error_world, unhealthy_world, unhealthy_world])
      = map snd (while_True alerting_config True 0 [patch_fails_world, error_world, unreachable_world, unhealthy_world])"
    by blast
  with t m l show ?thesis
    by (simp add: sample_classify del: while_True.simps)
qed

end
